theory Spec2Isabelle
  imports Complex_Main
begin

section \<open>JavaScript values\<close>

text \<open>
  The model's answer reaches \<open>mapModelResponseToApp\<close> as \<open>data: any\<close>, the result of
  \<open>JSON.parse\<close> (or the object literal of \<open>simulateAnalysis\<close>). A value is therefore one
  of the JSON values, or \<open>undefined\<close>, which reading a missing property yields. An object
  is the list of its own properties; \<open>map_of\<close> looks a key up.

  A number of the source is an IEEE double. \<open>JNum r\<close> is the number that the literal
  \<open>r\<close> denotes, that is, the double nearest to the rational \<open>r\<close> (an infinity
  beyond the range): \<open>to_double\<close> below computes it. The sign of a zero is not
  modelled. A string is the list of the bytes of its UTF-8 form; where the source counts
  UTF-16 code units, the host does it.
\<close>

datatype jsval =
    JUndefined
  | JNull
  | JBool bool
  | JNum rat
  | JStr string
  | JArr "jsval list"
  | JObj "(string \<times> jsval) list"

datatype js_error = TypeError | Error string

subsection \<open>Doubles\<close>

text \<open>The values of arithmetic: a finite double, given by its exact value, an
  infinity, or NaN.\<close>

datatype jsnumber = Finite rat | PosInfinity | NegInfinity | NaN

text \<open>The number of binary digits of a natural number.\<close>

fun bit_length :: "nat \<Rightarrow> nat" where
  "bit_length n = (if n = 0 then 0 else Suc (bit_length (n div 2)))"

declare bit_length.simps [simp del]

text \<open>The binary exponent of a positive rational \<open>a\<close>: the \<open>e\<close> with
  \<open>2 ^ e \<le> a < 2 ^ (e + 1)\<close>.\<close>

definition exponent_of :: "rat \<Rightarrow> int" where
  "exponent_of a =
     (if 1 \<le> a then int (bit_length (nat \<lfloor>a\<rfloor>)) - 1
      else - int (bit_length (nat \<lceil>1 / a\<rceil> - 1)))"

definition pow2 :: "int \<Rightarrow> rat" where
  "pow2 k = (if 0 \<le> k then 2 ^ nat k else 1 / 2 ^ nat (- k))"

text \<open>Rounding to the nearest integer, a tie going to the even one.\<close>

definition round_half_even :: "rat \<Rightarrow> int" where
  "round_half_even x =
     (let f = \<lfloor>x\<rfloor>; d = x - of_int f
      in if d < 1 / 2 then f else if 1 / 2 < d then f + 1 else if even f then f else f + 1)"

text \<open>
  The double nearest to a rational, as IEEE 754 rounds (binary64, round to nearest,
  ties to even): 53 significant binary digits, exponents from \<open>-1022\<close> (below which
  the spacing stays \<open>2 ^ -1074\<close>) to 1023, and an infinity when the rounded value
  reaches \<open>2 ^ 1024\<close>.
\<close>

definition to_double :: "rat \<Rightarrow> jsnumber" where
  "to_double x =
     (if x = 0 then Finite 0
      else
        (let a = \<bar>x\<bar>;
             q = pow2 (max (exponent_of a) (- 1022) - 52);
             m = of_int (round_half_even (a / q)) * q
         in if pow2 1024 \<le> m then (if 0 < x then PosInfinity else NegInfinity)
            else Finite (if 0 < x then m else - m)))"

text \<open>\<open>x - y\<close> on numbers: the exact difference of two finite doubles, rounded.\<close>

fun minus_number :: "jsnumber \<Rightarrow> jsnumber \<Rightarrow> jsnumber" where
  "minus_number (Finite p) (Finite q) = to_double (p - q)"
| "minus_number NaN y = NaN"
| "minus_number x NaN = NaN"
| "minus_number PosInfinity PosInfinity = NaN"
| "minus_number NegInfinity NegInfinity = NaN"
| "minus_number PosInfinity y = PosInfinity"
| "minus_number NegInfinity y = NegInfinity"
| "minus_number (Finite p) PosInfinity = NegInfinity"
| "minus_number (Finite p) NegInfinity = PosInfinity"

subsection \<open>Values\<close>

text \<open>What \<open>!v\<close>, \<open>v || w\<close> and \<open>v ? a : b\<close> test: every value is truthy except
  \<open>undefined\<close>, \<open>null\<close>, \<open>false\<close>, the number 0 and the empty string (JSON has no
  NaN). A literal too small for a double denotes 0.\<close>

fun truthy :: "jsval \<Rightarrow> bool" where
  "truthy JUndefined = False"
| "truthy JNull = False"
| "truthy (JBool b) = b"
| "truthy (JNum r) = (to_double r \<noteq> Finite 0)"
| "truthy (JStr s) = (s \<noteq> [])"
| "truthy (JArr xs) = True"
| "truthy (JObj kvs) = True"

definition js_or :: "jsval \<Rightarrow> jsval \<Rightarrow> jsval" where
  "js_or a b = (if truthy a then a else b)"

fun nullish :: "jsval \<Rightarrow> bool" where
  "nullish JUndefined = True"
| "nullish JNull = True"
| "nullish v = False"

text \<open>\<open>v.k\<close> for the property names the source reads (none of them is inherited from a
  prototype): a TypeError on \<open>undefined\<close> and \<open>null\<close>, the own property of an object,
  \<open>undefined\<close> on every other value.\<close>

fun get_prop :: "jsval \<Rightarrow> string \<Rightarrow> js_error + jsval" where
  "get_prop JUndefined k = Inl TypeError"
| "get_prop JNull k = Inl TypeError"
| "get_prop (JObj kvs) k = Inr (case map_of kvs k of None \<Rightarrow> JUndefined | Some v \<Rightarrow> v)"
| "get_prop v k = Inr JUndefined"

text \<open>The same read where an earlier read of the same receiver has already succeeded.\<close>

definition field :: "jsval \<Rightarrow> string \<Rightarrow> jsval" where
  "field v k = (case get_prop v k of Inl e \<Rightarrow> JUndefined | Inr x \<Rightarrow> x)"

text \<open>\<open>v?.k\<close>\<close>

definition opt_field :: "jsval \<Rightarrow> string \<Rightarrow> jsval" where
  "opt_field v k = (if nullish v then JUndefined else field v k)"

text \<open>Decimal digits of a natural number, as \<open>`${Date.now()}`\<close> and an array index print.\<close>

fun decimal :: "nat \<Rightarrow> string" where
  "decimal n =
     (if n < 10 then [char_of (48 + n)]
      else decimal (n div 10) @ [char_of (48 + n mod 10)])"

declare decimal.simps [simp del]

text \<open>The element \<open>i\<close> of an array, the property \<open>i\<close> of an object.\<close>

fun element :: "jsval \<Rightarrow> nat \<Rightarrow> jsval" where
  "element (JArr xs) i = (if i < length xs then xs ! i else JUndefined)"
| "element (JObj kvs) i = (case map_of kvs (decimal i) of None \<Rightarrow> JUndefined | Some v \<Rightarrow> v)"
| "element v i = JUndefined"

text \<open>
  The functions of the JavaScript runtime whose results depend on tables the source does
  not contain are taken from the host: \<open>Number::toString\<close> (of the number that the
  rational denotes), the conversion of a string to a number,
  \<open>String.prototype.toUpperCase\<close>, \<open>String.prototype.trim\<close>, and the UTF-16 code
  unit at a position of a string, as a string (\<open>None\<close> past the end).
\<close>

record builtins =
  number_to_string :: "rat \<Rightarrow> string"
  string_to_number :: "string \<Rightarrow> jsnumber"
  toUpperCase :: "string \<Rightarrow> string"
  trim :: "string \<Rightarrow> string"
  code_unit :: "string \<Rightarrow> nat \<Rightarrow> string option"

text \<open>\<open>v[i]\<close> on a value that is not \<open>undefined\<close> or \<open>null\<close>.\<close>

definition index :: "builtins \<Rightarrow> jsval \<Rightarrow> nat \<Rightarrow> jsval" where
  "index js v i =
     (case v of
        JStr s \<Rightarrow> (case code_unit js s i of None \<Rightarrow> JUndefined | Some c \<Rightarrow> JStr c)
      | _ \<Rightarrow> element v i)"

text \<open>
  The readings of the clock and of the random generator, by the number of the call:
  \<open>date_now e k\<close> is what the \<open>k\<close>-th call of \<open>Date.now()\<close> returns and
  \<open>math_random_36 e k\<close> is \<open>Math.random().toString(36)\<close> at the \<open>k\<close>-th call of
  \<open>Math.random()\<close>, both counted from 0 within one call of \<open>mapModelResponseToApp\<close>.
\<close>

record effects =
  date_now :: "nat \<Rightarrow> nat"
  math_random_36 :: "nat \<Rightarrow> string"

text \<open>
  ToString, as a template literal applies it. An object from JSON has no callable
  property: with an own \<open>toString\<close> property the conversion finds no method that
  returns a primitive and raises TypeError, without one \<open>Object.prototype.toString\<close>
  answers. An array is joined with commas, \<open>undefined\<close> and \<open>null\<close> elements as the
  empty string.
\<close>

fun ToString :: "builtins \<Rightarrow> jsval \<Rightarrow> js_error + string"
  and join :: "builtins \<Rightarrow> jsval list \<Rightarrow> js_error + string" where
  "ToString js JUndefined = Inr ''undefined''"
| "ToString js JNull = Inr ''null''"
| "ToString js (JBool b) = Inr (if b then ''true'' else ''false'')"
| "ToString js (JNum r) = Inr (number_to_string js r)"
| "ToString js (JStr s) = Inr s"
| "ToString js (JArr xs) = join js xs"
| "ToString js (JObj kvs) =
     (if map_of kvs ''toString'' = None then Inr ''[object Object]'' else Inl TypeError)"
| "join js [] = Inr []"
| "join js (x # xs) =
     (case (if nullish x then Inr [] else ToString js x) of
        Inl err \<Rightarrow> Inl err
      | Inr s \<Rightarrow>
          (if xs = [] then Inr s
           else case join js xs of Inl err \<Rightarrow> Inl err | Inr t \<Rightarrow> Inr (s @ '','' @ t)))"


text \<open>ToNumber, as the operator \<open>-\<close> applies it: an array goes through its string, an
  object from JSON through \<open>[object Object]\<close>, which is not a number.\<close>

fun ToNumber :: "builtins \<Rightarrow> jsval \<Rightarrow> js_error + jsnumber" where
  "ToNumber js JUndefined = Inr NaN"
| "ToNumber js JNull = Inr (Finite 0)"
| "ToNumber js (JBool b) = Inr (Finite (if b then 1 else 0))"
| "ToNumber js (JNum r) = Inr (to_double r)"
| "ToNumber js (JStr s) = Inr (string_to_number js s)"
| "ToNumber js (JArr xs) =
     (case join js xs of Inl err \<Rightarrow> Inl err | Inr s \<Rightarrow> Inr (string_to_number js s))"
| "ToNumber js (JObj kvs) =
     (if map_of kvs ''toString'' = None then Inr NaN else Inl TypeError)"

text \<open>\<open>a - b\<close>: the left operand is converted first.\<close>

definition js_minus :: "builtins \<Rightarrow> jsval \<Rightarrow> jsval \<Rightarrow> js_error + jsnumber" where
  "js_minus js a b =
     (case ToNumber js a of
        Inl err \<Rightarrow> Inl err
      | Inr x \<Rightarrow>
          (case ToNumber js b of
             Inl err \<Rightarrow> Inl err
           | Inr y \<Rightarrow> Inr (minus_number x y)))"

text \<open>\<open>s.replace('_', ' ')\<close> with a string pattern: the first occurrence only.\<close>

fun replace :: "string \<Rightarrow> char \<Rightarrow> char \<Rightarrow> string" where
  "replace [] a b = []"
| "replace (c # cs) a b = (if c = a then b # cs else c # replace cs a b)"

section \<open>The data model\<close>

text \<open>
  The declarations of \<open>Finding\<close>, \<open>Evidence\<close>, \<open>ReportFile\<close> and \<open>Report\<close> are
  in \<open>../types\<close>; the records below have the fields of the object literals that build
  them in \<open>mapModelResponseToApp\<close>, \<open>submitFeedback\<close> and \<open>handleSubmit\<close>. A field
  filled from \<open>data\<close> holds whatever value the payload has there.
\<close>

datatype category = Finding | Impression

record Feedback =
  isAccurate :: bool
  correction :: "string option"
  timestamp :: string

record BBox =
  bbox_y :: jsval
  bbox_x :: jsval
  bbox_height :: jsnumber
  bbox_width :: jsnumber

record Evidence =
  fileId :: string
  ev_confidence :: jsval
  source :: string
  bbox :: BBox

record Finding =
  finding_id :: string
  category :: category
  finding_text :: string
  confidence :: jsval
  explanation :: jsval
  explanationEn :: jsval
  suggestedActions :: jsval
  icdCodes :: "string list option"
  evidence :: "Evidence list"
  feedback :: "Feedback option"

record AnalysisResult =
  summary :: jsval
  findings :: "Finding list"
  summaryPatient :: jsval
  summaryStudent :: jsval
  summaryDoctor :: jsval
  summaryPatientEn :: jsval
  summaryStudentEn :: jsval
  summaryDoctorEn :: jsval
  recommendationsPatient :: jsval
  recommendationsStudent :: jsval
  recommendationsDoctor :: jsval
  recommendationsPatientEn :: jsval
  recommendationsStudentEn :: jsval
  recommendationsDoctorEn :: jsval

section \<open>mapModelResponseToApp\<close>

text \<open>The \<open>evidence\<close> property of a pushed finding (source lines 208 to 218).\<close>

definition evidence_of :: "builtins \<Rightarrow> string \<Rightarrow> jsval \<Rightarrow> js_error + Evidence list" where
  "evidence_of js fid item =
     (let box = field item ''box_2d'' in
      if truthy box then
        (case js_minus js (index js box 2) (index js box 0) of
           Inl err \<Rightarrow> Inl err
         | Inr h \<Rightarrow>
             (case js_minus js (index js box 3) (index js box 1) of
                Inl err \<Rightarrow> Inl err
              | Inr w \<Rightarrow>
                  Inr [\<lparr>fileId = fid,
                        ev_confidence = js_or (field item ''confidence'') (JNum 0.8),
                        source = ''MODEL_VISION'',
                        bbox = \<lparr>bbox_y = index js box 0, bbox_x = index js box 1,
                                 bbox_height = h, bbox_width = w\<rparr>\<rparr>]))
      else Inr [])"

text \<open>
  The object pushed for one element of \<open>items\<close> (source lines 199 to 219); \<open>k\<close> is the
  number of elements pushed before it, which is also the number of earlier calls of
  \<open>Date.now()\<close> and of \<open>Math.random()\<close>. \<open>substr(2, 5)\<close> keeps at most five
  characters from position 2.
\<close>

definition highlight ::
  "builtins \<Rightarrow> effects \<Rightarrow> jsval \<Rightarrow> string \<Rightarrow> category \<Rightarrow> nat \<Rightarrow> jsval \<Rightarrow> js_error + Finding" where
  "highlight js e data fid cat k item =
     (case get_prop item ''label'' of
        Inl err \<Rightarrow> Inl err
      | Inr label \<Rightarrow>
     (case ToString js label of
        Inl err \<Rightarrow> Inl err
      | Inr l \<Rightarrow>
     (case ToString js (field item ''description'') of
        Inl err \<Rightarrow> Inl err
      | Inr d \<Rightarrow>
     (case evidence_of js fid item of
        Inl err \<Rightarrow> Inl err
      | Inr ev \<Rightarrow>
          Inr \<lparr>finding_id = ''find-'' @ decimal (date_now e k) @ ''-''
                               @ take 5 (drop 2 (math_random_36 e k)),
                category = cat,
                finding_text = l @ '': '' @ d,
                confidence = js_or (field item ''confidence'') (JNum 0.8),
                explanation =
                  js_or (field data ''summary_student'') (JStr ''Visual pattern detected.''),
                explanationEn =
                  js_or (field data ''summary_student_en'') (JStr ''Visual pattern detected.''),
                suggestedActions = js_or (field data ''recommendations_student'') (JArr []),
                icdCodes = Some [],
                evidence = ev,
                feedback = None\<rparr>))))"

text \<open>\<open>items.forEach\<close> over an array, pushing onto \<open>findings\<close>; it stops at the first
  exception.\<close>

fun forEach_push ::
  "builtins \<Rightarrow> effects \<Rightarrow> jsval \<Rightarrow> string \<Rightarrow> category \<Rightarrow> jsval list \<Rightarrow> Finding list
     \<Rightarrow> js_error + Finding list" where
  "forEach_push js e data fid cat [] fs = Inr fs"
| "forEach_push js e data fid cat (item # items) fs =
     (case highlight js e data fid cat (length fs) item of
        Inl err \<Rightarrow> Inl err
      | Inr f \<Rightarrow> forEach_push js e data fid cat items (fs @ [f]))"

text \<open>
  \<open>processHighlights\<close> (source lines 196 to 221): nothing for a falsy \<open>items\<close>; a truthy
  value that is not an array has no \<open>forEach\<close> method, and calling it raises TypeError.
\<close>

definition processHighlights ::
  "builtins \<Rightarrow> effects \<Rightarrow> jsval \<Rightarrow> string \<Rightarrow> jsval \<Rightarrow> category \<Rightarrow> Finding list
     \<Rightarrow> js_error + Finding list" where
  "processHighlights js e data fid items cat fs =
     (if \<not> truthy items then Inr fs
      else case items of
             JArr xs \<Rightarrow> forEach_push js e data fid cat xs fs
           | _ \<Rightarrow> Inl TypeError)"

text \<open>
  \<open>data.file_type?.replace('_', ' ').toUpperCase()\<close> inside the template literal:
  \<open>undefined\<close> for a missing or null \<open>file_type\<close>; a value that is neither a string
  nor nullish has no \<open>replace\<close> method, and calling it raises TypeError.
\<close>

definition file_type_text :: "builtins \<Rightarrow> jsval \<Rightarrow> js_error + string" where
  "file_type_text js ft =
     (if nullish ft then Inr ''undefined''
      else case ft of
             JStr s \<Rightarrow> Inr (toUpperCase js (replace s (CHR ''_'') (CHR '' '')))
           | _ \<Rightarrow> Inl TypeError)"

text \<open>The object that \<open>findings.unshift\<close> receives (source lines 230 to 239), after \<open>k\<close>
  earlier calls of \<open>Date.now()\<close>. It has no \<open>icdCodes\<close> property.\<close>

definition classification :: "builtins \<Rightarrow> effects \<Rightarrow> jsval \<Rightarrow> nat \<Rightarrow> js_error + Finding" where
  "classification js e data k =
     (case file_type_text js (field data ''file_type'') of
        Inl err \<Rightarrow> Inl err
      | Inr t \<Rightarrow>
          Inr \<lparr>finding_id = ''ft-'' @ decimal (date_now e k),
                category = Impression,
                finding_text = ''File Classification: '' @ t,
                confidence = js_or (field data ''confidence_overall'') (JNum 0.9),
                explanation = JStr ''Classified based on visual features.'',
                explanationEn = JStr ''Classified based on visual features.'',
                suggestedActions = JArr [],
                icdCodes = None,
                evidence = [],
                feedback = None\<rparr>)"

definition mapModelResponseToApp ::
  "builtins \<Rightarrow> effects \<Rightarrow> jsval \<Rightarrow> string \<Rightarrow> js_error + AnalysisResult" where
  "mapModelResponseToApp js e data fid =
     (case get_prop data ''highlights'' of
        Inl err \<Rightarrow> Inl err
      | Inr hl \<Rightarrow>
     (case processHighlights js e data fid (opt_field hl ''regions_of_interest'') Finding [] of
        Inl err \<Rightarrow> Inl err
      | Inr fs1 \<Rightarrow>
     (case processHighlights js e data fid
             (opt_field (field data ''highlights'') ''artifacts'') Finding fs1 of
        Inl err \<Rightarrow> Inl err
      | Inr fs2 \<Rightarrow>
     (case classification js e data (length fs2) of
        Inl err \<Rightarrow> Inl err
      | Inr ft \<Rightarrow>
          Inr \<lparr>summary = js_or (field data ''summary_patient'') (JStr ''Analysis complete.''),
                findings = ft # fs2,
                summaryPatient = js_or (field data ''summary_patient'') (JStr []),
                summaryStudent = js_or (field data ''summary_student'') (JStr []),
                summaryDoctor = js_or (field data ''summary_doctor'') (JStr []),
                summaryPatientEn =
                  js_or (field data ''summary_patient_en'')
                    (js_or (field data ''summary_patient'') (JStr [])),
                summaryStudentEn =
                  js_or (field data ''summary_student_en'')
                    (js_or (field data ''summary_student'') (JStr [])),
                summaryDoctorEn =
                  js_or (field data ''summary_doctor_en'')
                    (js_or (field data ''summary_doctor'') (JStr [])),
                recommendationsPatient = js_or (field data ''recommendations_patient'') (JArr []),
                recommendationsStudent = js_or (field data ''recommendations_student'') (JArr []),
                recommendationsDoctor = js_or (field data ''recommendations_doctor'') (JArr []),
                recommendationsPatientEn =
                  js_or (field data ''recommendations_patient_en'')
                    (js_or (field data ''recommendations_patient'') (JArr [])),
                recommendationsStudentEn =
                  js_or (field data ''recommendations_student_en'')
                    (js_or (field data ''recommendations_student'') (JArr [])),
                recommendationsDoctorEn =
                  js_or (field data ''recommendations_doctor_en'')
                    (js_or (field data ''recommendations_doctor'') (JArr []))\<rparr>))))"

section \<open>analyzeMedicalImage and the simulation\<close>

text \<open>
  Where \<open>getApiKey\<close> looks: \<open>localStorage.getItem('MEDLENS_API_KEY')\<close> (\<open>None\<close> is
  \<open>null\<close>), \<open>window.MEDLENS_API_KEY\<close>, and \<open>process.env.API_KEY\<close>, which is
  \<open>undefined\<close> also when \<open>process\<close> or \<open>process.env\<close> is missing or reading it throws.
\<close>

record credentials =
  localKey :: "string option"
  windowKey :: jsval
  envKey :: jsval

definition getApiKey :: "builtins \<Rightarrow> credentials \<Rightarrow> jsval" where
  "getApiKey js c =
     (if (case localKey c of None \<Rightarrow> False | Some k \<Rightarrow> k \<noteq> [] \<and> length (trim js k) > 0)
      then JStr (trim js (the (localKey c)))
      else if truthy (windowKey c) then windowKey c
      else if truthy (envKey c) then envKey c
      else JStr [])"

record ReportFile =
  rf_id :: string
  rf_url :: string
  rf_type :: string
  rf_name :: string

definition fallbackMsg :: string where
  "fallbackMsg =
     [CHR 0xE2, CHR 0x9A, CHR 0xA0, CHR 0xEF, CHR 0xB8, CHR 0x8F]
       @ '' DEMO MODE: REAL AI IS DISABLED.''"

definition instructionMsg :: string where
  "instructionMsg =
     ''To enable Real AI Analysis: Go to Admin Panel > Configuration > API Key Management and enter your Gemini API Key.''"

definition missingKeyMsg :: string where
  "missingKeyMsg =
     ''MISSING_API_KEY: The application is running in Simulation Mode because no API Key was found in LocalStorage or Environment Variables.''"

definition mockData :: jsval where
  "mockData = JObj
     [(''file_type'', JStr ''demo_simulation''),
      (''summary_patient'', JStr fallbackMsg),
      (''summary_student'', JStr instructionMsg),
      (''summary_doctor'', JStr missingKeyMsg),
      (''summary_patient_en'', JStr fallbackMsg),
      (''summary_student_en'', JStr instructionMsg),
      (''summary_doctor_en'', JStr missingKeyMsg),
      (''highlights'', JObj
         [(''regions_of_interest'', JArr
             [JObj [(''label'', JStr ''Configuration Error''),
                    (''description'', JStr ''API Key Not Found''),
                    (''confidence'', JNum 1.0),
                    (''box_2d'', JArr [JNum 10, JNum 10, JNum 90, JNum 90])]]),
          (''artifacts'', JArr [])]),
      (''recommendations_patient'',
         JArr [JStr ''Go to Admin Page'', JStr ''Click Configuration Tab'', JStr ''Enter API Key'']),
      (''recommendations_student'', JArr []),
      (''recommendations_doctor'', JArr []),
      (''recommendations_patient_en'',
         JArr [JStr ''Go to Admin Page'', JStr ''Click Configuration Tab'', JStr ''Enter API Key'']),
      (''recommendations_student_en'', JArr []),
      (''recommendations_doctor_en'', JArr []),
      (''confidence_overall'', JNum 0.0),
      (''disclaimer'', JStr ''SIMULATION ONLY'')]"

text \<open>\<open>simulateAnalysis\<close>: the delay of 1500 ms has no effect on the value the promise
  resolves with; \<open>language\<close> is not used.\<close>

definition simulateAnalysis ::
  "builtins \<Rightarrow> effects \<Rightarrow> ReportFile \<Rightarrow> string \<Rightarrow> js_error + AnalysisResult" where
  "simulateAnalysis js e file language = mapModelResponseToApp js e mockData (rf_id file)"

text \<open>
  \<open>analyzeMedicalImage\<close>: a promise that resolves is \<open>Inr\<close>, one that rejects is \<open>Inl\<close>.
  With a key the function calls the external model inside \<open>try\<close> (source lines 127 to
  188); what that block returns or throws is the argument \<open>remote\<close>.
\<close>

definition analyzeMedicalImage ::
  "builtins \<Rightarrow> effects \<Rightarrow> credentials \<Rightarrow> js_error + AnalysisResult \<Rightarrow> ReportFile \<Rightarrow> string
     \<Rightarrow> js_error + AnalysisResult" where
  "analyzeMedicalImage js e c remote file language =
     (if \<not> truthy (getApiKey js c) then simulateAnalysis js e file language else remote)"

text \<open>\<open>s.includes(p)\<close>\<close>

fun startsWith :: "string \<Rightarrow> string \<Rightarrow> bool" where
  "startsWith s [] = True"
| "startsWith [] (p # ps) = False"
| "startsWith (c # cs) (p # ps) = (c = p \<and> startsWith cs ps)"

fun includes_str :: "string \<Rightarrow> string \<Rightarrow> bool" where
  "includes_str [] p = (p = [])"
| "includes_str (c # cs) p = (startsWith (c # cs) p \<or> includes_str cs p)"

section \<open>Reports, approval and feedback\<close>

text \<open>
  Modelled from the spec: the enumeration \<open>ReportStatus\<close> is declared in \<open>../types\<close>,
  which is not among the sources. The spec names the stored states \<open>ReviewRequired\<close> and
  \<open>Approved\<close>; the sources use the members \<open>REVIEW_REQUIRED\<close> and \<open>APPROVED\<close>.
\<close>

datatype ReportStatus = REVIEW_REQUIRED | APPROVED

record Patient =
  patient_id :: string
  patient_name :: string

text \<open>A report has every property of the analysis under the same name, and its own.\<close>

record Report = AnalysisResult +
  report_id :: string
  patientId :: string
  patientName :: string
  createdAt :: string
  status :: ReportStatus
  files :: "ReportFile list"
  language :: string

text \<open>
  The object literal \<open>newReport\<close> of \<open>handleSubmit\<close> (source lines 326 to 352), the only
  place where a report is built. \<open>now\<close> is the reading of \<open>Date.now()\<close> and \<open>stamp\<close> is
  \<open>new Date().toISOString()\<close>.
\<close>

definition newReport ::
  "nat \<Rightarrow> string \<Rightarrow> Patient \<Rightarrow> ReportFile \<Rightarrow> string \<Rightarrow> AnalysisResult \<Rightarrow> Report" where
  "newReport now stamp patient reportFile selectedLanguage analysis =
     \<lparr>summary = summary analysis,
      findings = findings analysis,
      summaryPatient = summaryPatient analysis,
      summaryStudent = summaryStudent analysis,
      summaryDoctor = summaryDoctor analysis,
      summaryPatientEn = summaryPatientEn analysis,
      summaryStudentEn = summaryStudentEn analysis,
      summaryDoctorEn = summaryDoctorEn analysis,
      recommendationsPatient = recommendationsPatient analysis,
      recommendationsStudent = recommendationsStudent analysis,
      recommendationsDoctor = recommendationsDoctor analysis,
      recommendationsPatientEn = recommendationsPatientEn analysis,
      recommendationsStudentEn = recommendationsStudentEn analysis,
      recommendationsDoctorEn = recommendationsDoctorEn analysis,
      report_id = ''rep-'' @ decimal now,
      patientId = patient_id patient,
      patientName = patient_name patient,
      createdAt = stamp,
      status = REVIEW_REQUIRED,
      files = [reportFile],
      language = selectedLanguage\<rparr>"

text \<open>The argument of \<open>updateReport\<close>: the properties to replace. The sources pass
  \<open>status\<close> or \<open>findings\<close>.\<close>

record ReportPatch =
  patch_status :: "ReportStatus option"
  patch_findings :: "Finding list option"

definition apply_patch :: "Report \<Rightarrow> ReportPatch \<Rightarrow> Report" where
  "apply_patch r p =
     r\<lparr>status := (case patch_status p of None \<Rightarrow> status r | Some s \<Rightarrow> s),
       findings := (case patch_findings p of None \<Rightarrow> findings r | Some fs \<Rightarrow> fs)\<rparr>"

text \<open>
  Modelled from the spec: \<open>updateReport\<close> is a function of the store (\<open>../store\<close>), which
  is not among the sources. The spec has a single in-memory collection of reports whose
  mutation is always a full-record replace: the report with the given identifier is
  replaced by itself with the given properties, every other report stays.
\<close>

definition updateReport :: "Report list \<Rightarrow> string \<Rightarrow> ReportPatch \<Rightarrow> Report list" where
  "updateReport rs rid p = map (\<lambda>r. if report_id r = rid then apply_patch r p else r) rs"

text \<open>
  What the handlers of \<open>ReportViewer\<close> read and write: the reports of the store, the
  location that \<open>navigate\<close> sets, and the two pieces of component state for the
  correction input.
\<close>

record ViewerState =
  reports :: "Report list"
  location :: string
  showCorrectionInput :: "string option"
  correctionText :: string

text \<open>\<open>reports.find(r => r.id === id)\<close>; without a report the component returns before
  it defines its handlers.\<close>

definition current_report :: "ViewerState \<Rightarrow> string \<Rightarrow> Report option" where
  "current_report st rid = find (\<lambda>r. report_id r = rid) (reports st)"

text \<open>The handlers have no statement that raises: their result is always \<open>Inr\<close>.\<close>

definition handleApprove :: "ViewerState \<Rightarrow> Report \<Rightarrow> js_error + ViewerState" where
  "handleApprove st report =
     Inr (st\<lparr>reports :=
                updateReport (reports st) (report_id report)
                  \<lparr>patch_status = Some APPROVED, patch_findings = None\<rparr>,
              location := ''/''\<rparr>)"

text \<open>
  The callback of \<open>report.findings.map\<close> in \<open>submitFeedback\<close>. Each finding with the
  identifier gets a new \<open>feedback\<close> object, and each of these evaluates
  \<open>new Date().toISOString()\<close>: \<open>clock k\<close> is the result of the \<open>k\<close>-th evaluation.
\<close>

fun updatedFindings ::
  "(nat \<Rightarrow> string) \<Rightarrow> string \<Rightarrow> bool \<Rightarrow> string option \<Rightarrow> nat \<Rightarrow> Finding list \<Rightarrow> Finding list" where
  "updatedFindings clock findingId acc corr k [] = []"
| "updatedFindings clock findingId acc corr k (f # fs) =
     (if finding_id f = findingId
      then f\<lparr>feedback := Some \<lparr>isAccurate = acc, correction = corr, timestamp = clock k\<rparr>\<rparr>
             # updatedFindings clock findingId acc corr (Suc k) fs
      else f # updatedFindings clock findingId acc corr k fs)"

definition submitFeedback ::
  "(nat \<Rightarrow> string) \<Rightarrow> ViewerState \<Rightarrow> Report \<Rightarrow> string \<Rightarrow> bool \<Rightarrow> string option
     \<Rightarrow> js_error + ViewerState" where
  "submitFeedback clock st report findingId acc corr =
     Inr (st\<lparr>reports :=
                updateReport (reports st) (report_id report)
                  \<lparr>patch_status = None,
                   patch_findings =
                     Some (updatedFindings clock findingId acc corr 0 (findings report))\<rparr>,
              showCorrectionInput := None,
              correctionText := []\<rparr>)"

text \<open>
  The operations on a stored report: on the page of report \<open>rid\<close> the clinician approves
  it or records feedback on a finding. Without such a report the page offers neither.
\<close>

datatype core_op =
    Approve string
  | RecordFeedback string "nat \<Rightarrow> string" string bool "string option"

fun run_handler :: "ViewerState \<Rightarrow> js_error + ViewerState \<Rightarrow> ViewerState" where
  "run_handler st (Inl err) = st"
| "run_handler st (Inr st') = st'"

fun core_step :: "ViewerState \<Rightarrow> core_op \<Rightarrow> ViewerState" where
  "core_step st (Approve rid) =
     (case current_report st rid of
        None \<Rightarrow> st
      | Some r \<Rightarrow> run_handler st (handleApprove st r))"
| "core_step st (RecordFeedback rid clock findingId acc corr) =
     (case current_report st rid of
        None \<Rightarrow> st
      | Some r \<Rightarrow> run_handler st (submitFeedback clock st r findingId acc corr))"

definition core_run :: "ViewerState \<Rightarrow> core_op list \<Rightarrow> ViewerState" where
  "core_run st ops = foldl core_step st ops"

section \<open>A host for evaluating examples\<close>

text \<open>
  The theorems below hold for every host. Examples are evaluated with this one: it
  prints natural numbers in decimal, reads strings of digits, maps the letters a to z to
  upper case, trims blanks and takes a byte for a code unit, as it is in a string of
  ASCII characters. On other arguments its answers are placeholders, which no example
  reaches.
\<close>

definition upper_char :: "char \<Rightarrow> char" where
  "upper_char c =
     (let n = (of_char c :: nat) in if 97 \<le> n \<and> n \<le> 122 then char_of (n - 32) else c)"

definition is_digit :: "char \<Rightarrow> bool" where
  "is_digit c = (let n = (of_char c :: nat) in 48 \<le> n \<and> n \<le> 57)"

definition digits_value :: "string \<Rightarrow> nat" where
  "digits_value s = foldl (\<lambda>n c. 10 * n + ((of_char c :: nat) - 48)) 0 s"

definition example_builtins :: builtins where
  "example_builtins =
     \<lparr>number_to_string = (\<lambda>r. decimal (nat \<lfloor>r\<rfloor>)),
      string_to_number = (\<lambda>s. if list_all is_digit s then Finite (of_nat (digits_value s)) else NaN),
      toUpperCase = map upper_char,
      trim = (\<lambda>s. rev (dropWhile (\<lambda>c. c = CHR '' '') (rev (dropWhile (\<lambda>c. c = CHR '' '') s)))),
      code_unit = (\<lambda>s i. if i < length s then Some [s ! i] else None)\<rparr>"

definition example_effects :: effects where
  "example_effects =
     \<lparr>date_now = (\<lambda>k. 1700000000000 + k), math_random_36 = (\<lambda>k. ''0.4fzyo82mvyr'')\<rparr>"

definition later_effects :: effects where
  "later_effects =
     \<lparr>date_now = (\<lambda>k. 1700000000001 + k), math_random_36 = (\<lambda>k. ''0.j3c9x1q0a5'')\<rparr>"

section \<open>The payloads on which the mapping returns\<close>

text \<open>
  The mapping validates nothing, so a payload of the wrong shape makes it raise
  TypeError. These predicates describe, on the payload alone, when no step raises.
  A value converts to a string or to a number unless it is, or as an array contains,
  an object with an own \<open>toString\<close> property.
\<close>

fun stringable :: "jsval \<Rightarrow> bool" where
  "stringable (JObj kvs) = (map_of kvs ''toString'' = None)"
| "stringable (JArr xs) = list_all (\<lambda>x. nullish x \<or> stringable x) xs"
| "stringable v = True"

text \<open>An element of a highlight list: not \<open>null\<close>, with a label and a description
  that convert to strings and, if it has a box, coordinates that convert to numbers
  (what a string has at a position always converts).\<close>

definition box_ok :: "jsval \<Rightarrow> bool" where
  "box_ok item =
     (if truthy (field item ''box_2d'')
      then list_all (\<lambda>i. stringable (element (field item ''box_2d'') i)) [0, 1, 2, 3]
      else True)"

definition item_ok :: "jsval \<Rightarrow> bool" where
  "item_ok item =
     (\<not> nullish item
      \<and> stringable (field item ''label'')
      \<and> stringable (field item ''description'')
      \<and> box_ok item)"

text \<open>A highlight list: falsy, or an array of such elements.\<close>

definition items_ok :: "jsval \<Rightarrow> bool" where
  "items_ok v =
     (if truthy v then (case v of JArr xs \<Rightarrow> list_all item_ok xs | _ \<Rightarrow> False) else True)"

definition file_type_ok :: "jsval \<Rightarrow> bool" where
  "file_type_ok v = (if nullish v then True else (case v of JStr s \<Rightarrow> True | _ \<Rightarrow> False))"

text \<open>The elements that \<open>processHighlights\<close> visits.\<close>

definition entries :: "jsval \<Rightarrow> jsval list" where
  "entries v = (case v of JArr xs \<Rightarrow> xs | _ \<Rightarrow> [])"

definition regions_of_interest :: "jsval \<Rightarrow> jsval" where
  "regions_of_interest data = opt_field (field data ''highlights'') ''regions_of_interest''"

definition artifacts :: "jsval \<Rightarrow> jsval" where
  "artifacts data = opt_field (field data ''highlights'') ''artifacts''"

definition payload_ok :: "jsval \<Rightarrow> bool" where
  "payload_ok data =
     (\<not> nullish data
      \<and> items_ok (regions_of_interest data)
      \<and> items_ok (artifacts data)
      \<and> file_type_ok (field data ''file_type''))"

text \<open>The entries of a payload in the order in which the mapping visits them.\<close>

definition highlights_of :: "jsval \<Rightarrow> jsval list" where
  "highlights_of data = entries (regions_of_interest data) @ entries (artifacts data)"

text \<open>A result with the identifiers of its findings blanked.\<close>

definition erase_id :: "Finding \<Rightarrow> Finding" where
  "erase_id f = f\<lparr>finding_id := []\<rparr>"

definition erase_ids :: "AnalysisResult \<Rightarrow> AnalysisResult" where
  "erase_ids res = res\<lparr>findings := map erase_id (findings res)\<rparr>"

text \<open>
  The words of the spec for the simulated summaries, read generously: a text states
  the demonstration mode when it says DEMO MODE or Simulation Mode, and it can explain
  how to supply a credential only if it mentions the API key.
\<close>

definition states_demo_mode :: "string \<Rightarrow> bool" where
  "states_demo_mode s = (includes_str s ''DEMO MODE'' \<or> includes_str s ''Simulation Mode'')"

definition mentions_credential :: "string \<Rightarrow> bool" where
  "mentions_credential s = (includes_str s ''API Key'' \<or> includes_str s ''API_KEY'')"

section \<open>Example inputs\<close>

text \<open>The region of the scenario in the spec.\<close>

definition nodule :: jsval where
  "nodule = JObj
     [(''label'', JStr ''Nodule''),
      (''description'', JStr ''3mm opacity''),
      (''confidence'', JNum 0.95),
      (''box_2d'', JArr [JNum 10, JNum 20, JNum 30, JNum 40])]"

text \<open>The scenario's object as the payload itself, and as the \<open>highlights\<close> of a payload.\<close>

definition scenario_object :: jsval where
  "scenario_object = JObj [(''regions_of_interest'', JArr [nodule]), (''artifacts'', JArr [])]"

definition scenario_payload :: jsval where
  "scenario_payload = JObj [(''highlights'', scenario_object)]"

text \<open>A payload whose only region is \<open>null\<close>.\<close>

definition null_region_payload :: jsval where
  "null_region_payload = JObj [(''highlights'', JObj [(''regions_of_interest'', JArr [JNull])])]"

text \<open>A payload that declares an overall confidence of 0, and one whose region does.\<close>

definition zero_overall_payload :: jsval where
  "zero_overall_payload = JObj [(''file_type'', JStr ''xray''), (''confidence_overall'', JNum 0)]"

definition zero_region_payload :: jsval where
  "zero_region_payload = JObj
     [(''highlights'', JObj
         [(''regions_of_interest'', JArr
             [JObj [(''label'', JStr ''Nodule''),
                    (''description'', JStr ''3mm opacity''),
                    (''confidence'', JNum 0),
                    (''box_2d'', JArr [JNum 10, JNum 20, JNum 30, JNum 40])]])]),
      (''confidence_overall'', JNum 0)]"

text \<open>A payload with a patient summary and an empty English patient summary.\<close>

definition empty_english_payload :: jsval where
  "empty_english_payload =
     JObj [(''summary_patient'', JStr ''hola''), (''summary_patient_en'', JStr [])]"

definition example_file :: ReportFile where
  "example_file =
     \<lparr>rf_id = ''file-1'', rf_url = ''data:image/png;base64,AAAA'', rf_type = ''image/png'',
      rf_name = ''scan.png''\<rparr>"

definition no_credentials :: credentials where
  "no_credentials = \<lparr>localKey = None, windowKey = JUndefined, envKey = JUndefined\<rparr>"

text \<open>A payload whose first region is the region of the scenario and whose second is
  \<open>null\<close>, and one whose first region declares a confidence of 0.\<close>

definition nodule_then_null_payload :: jsval where
  "nodule_then_null_payload =
     JObj [(''highlights'', JObj [(''regions_of_interest'', JArr [nodule, JNull])])]"

definition zero_then_null_payload :: jsval where
  "zero_then_null_payload = JObj
     [(''highlights'', JObj
         [(''regions_of_interest'', JArr
             [JObj [(''label'', JStr ''Nodule''),
                    (''description'', JStr ''3mm opacity''),
                    (''confidence'', JNum 0)],
              JNull])]),
      (''confidence_overall'', JNum 0)]"

text \<open>A store with one report of two findings, and a viewer on it.\<close>

definition example_finding :: "string \<Rightarrow> category \<Rightarrow> string \<Rightarrow> Finding" where
  "example_finding i c t =
     \<lparr>finding_id = i, category = c, finding_text = t, confidence = JNum 0.9,
      explanation = JStr ''Classified based on visual features.'',
      explanationEn = JStr ''Classified based on visual features.'',
      suggestedActions = JArr [], icdCodes = None, evidence = [], feedback = None\<rparr>"

definition example_analysis :: AnalysisResult where
  "example_analysis =
     \<lparr>summary = JStr ''Clear lungs.'',
      findings = [example_finding ''ft-1700000000001'' Impression ''File Classification: XRAY'',
                  example_finding ''find-1700000000000-4fzyo'' Finding ''Nodule: 3mm opacity''],
      summaryPatient = JStr ''Clear lungs.'', summaryStudent = JStr [], summaryDoctor = JStr [],
      summaryPatientEn = JStr ''Clear lungs.'', summaryStudentEn = JStr [],
      summaryDoctorEn = JStr [],
      recommendationsPatient = JArr [], recommendationsStudent = JArr [],
      recommendationsDoctor = JArr [],
      recommendationsPatientEn = JArr [], recommendationsStudentEn = JArr [],
      recommendationsDoctorEn = JArr []\<rparr>"

definition example_report :: Report where
  "example_report =
     newReport 1700000000500 ''2023-11-14T22:13:20.500Z''
       \<lparr>patient_id = ''p1'', patient_name = ''Jane Doe''\<rparr> example_file ''English''
       example_analysis"

definition example_state :: ViewerState where
  "example_state =
     \<lparr>reports = [example_report], location = ''/report/rep-1700000000500'',
      showCorrectionInput = None, correctionText = []\<rparr>"

definition example_clock :: "nat \<Rightarrow> string" where
  "example_clock k = ''2023-11-14T22:14:00.00'' @ decimal k @ ''Z''"

definition later_clock :: "nat \<Rightarrow> string" where
  "later_clock k = ''2023-11-14T22:15:00.00'' @ decimal k @ ''Z''"

text \<open>The same store after the clinician has approved the report.\<close>

definition approved_state :: ViewerState where
  "approved_state = core_step example_state (Approve (report_id example_report))"

section \<open>Doubles that are exact\<close>

text \<open>An integer below \<open>2 ^ 53\<close> in magnitude is a double: rounding leaves it.\<close>

lemma bit_length_le: "n < 2 ^ k \<Longrightarrow> bit_length n \<le> k"
proof (induction n arbitrary: k rule: bit_length.induct)
  case (1 n)
  show ?case
  proof (cases "n = 0")
    case True
    then show ?thesis by (simp add: bit_length.simps)
  next
    case False
    with "1.prems" obtain j where k: "k = Suc j" by (cases k) auto
    with "1.prems" have "n div 2 < 2 ^ j" by auto
    from "1.IH" [OF False this] False k show ?thesis by (simp add: bit_length.simps)
  qed
qed

lemma bit_length_pos: "0 < n \<Longrightarrow> 0 < bit_length n"
  by (simp add: bit_length.simps)

lemma pow2_nonpos: "k \<le> 0 \<Longrightarrow> pow2 k = 1 / 2 ^ nat (- k)"
  by (simp add: pow2_def)

lemma round_half_even_of_int [simp]: "round_half_even (of_int z) = z"
  by (simp add: round_half_even_def)

lemma pow2_pos [simp]: "0 < pow2 k"
  by (simp add: pow2_def)

lemma pow2_nonzero [simp]: "pow2 k \<noteq> 0"
  by (simp add: pow2_def)

lemma to_double_exact:
  assumes x: "0 < x"
    and k: "max (exponent_of x) (- 1022) - 52 = k"
    and z: "x = of_int z * pow2 k"
    and small: "x < pow2 1024"
  shows "to_double x = Finite x" and "to_double (- x) = Finite (- x)"
proof -
  have ne: "pow2 k \<noteq> 0" by simp
  have ax: "\<bar>x\<bar> = x" "\<bar>- x\<bar> = x" using x by simp_all
  have "x / pow2 k = of_int z" using z ne by simp
  then have r: "round_half_even (x / pow2 k) = z" by simp
  have m: "of_int (round_half_even (x / pow2 k)) * pow2 k = x" using r z by simp
  have s: "\<not> pow2 1024 \<le> x" using small by simp
  have "to_double x =
      (if x = 0 then Finite 0
      else
        (let a = \<bar>x\<bar>;
             q = pow2 (max (exponent_of a) (- 1022) - 52);
             m = of_int (round_half_even (a / q)) * q
         in if pow2 1024 \<le> m then (if 0 < x then PosInfinity else NegInfinity)
            else Finite (if 0 < x then m else - m)))"
    by (rule to_double_def)
  also have "\<dots> = Finite x"
    unfolding Let_def ax k m using x s by simp
  finally show "to_double x = Finite x" .
  have "to_double (- x) =
      (if - x = 0 then Finite 0
      else
        (let a = \<bar>- x\<bar>;
             q = pow2 (max (exponent_of a) (- 1022) - 52);
             m = of_int (round_half_even (a / q)) * q
         in if pow2 1024 \<le> m then (if 0 < - x then PosInfinity else NegInfinity)
            else Finite (if 0 < - x then m else - m)))"
    by (rule to_double_def)
  also have "\<dots> = Finite (- x)"
    unfolding Let_def ax k m using x s by simp
  finally show "to_double (- x) = Finite (- x)" .
qed


lemma to_double_of_nat:
  assumes "0 < n" and "n < 2 ^ 53"
  shows "to_double (of_nat n) = Finite (of_nat n)"
    and "to_double (- of_nat n) = Finite (- of_nat n)"
proof -
  let ?b = "bit_length n"
  let ?x = "of_nat n :: rat"
  have b: "0 < ?b" "?b \<le> 53"
    using assms bit_length_pos bit_length_le by auto
  have x: "0 < ?x" using assms by simp
  have e: "exponent_of ?x = int ?b - 1"
    using assms by (simp add: exponent_of_def)
  have k: "max (exponent_of ?x) (- 1022) - 52 = - int (53 - ?b)"
    unfolding e using b by simp
  have p: "pow2 (- int (53 - ?b)) = 1 / 2 ^ (53 - ?b)"
    by (simp add: pow2_nonpos)
  have z: "?x = of_int (int (n * 2 ^ (53 - ?b))) * pow2 (- int (53 - ?b))"
    unfolding p by simp
  have "n < 2 ^ 1024" using assms(2) by (rule less_trans) simp
  then have "?x < of_nat (2 ^ 1024)" by (simp only: of_nat_less_iff)
  then have small: "?x < pow2 1024" by (simp add: pow2_def)
  from to_double_exact [OF x k z small]
  show "to_double (of_nat n) = Finite (of_nat n)"
    and "to_double (- of_nat n) = Finite (- of_nat n)"
    by blast+
qed


lemma to_double_of_int:
  assumes "nat \<bar>z\<bar> < 2 ^ 53"
  shows "to_double (of_int z) = Finite (of_int z)"
proof (cases "z = 0")
  case True
  then show ?thesis by (simp add: to_double_def)
next
  case False
  let ?n = "nat \<bar>z\<bar>"
  from False have n: "0 < ?n" by simp
  show ?thesis
  proof (cases "0 < z")
    case True
    then have eq: "(of_int z :: rat) = of_nat ?n" by simp
    show ?thesis unfolding eq by (rule to_double_of_nat(1) [OF n assms])
  next
    case neg: False
    with False have eq: "(of_int z :: rat) = - of_nat ?n" by simp
    show ?thesis unfolding eq by (rule to_double_of_nat(2) [OF n assms])
  qed
qed

lemma to_double_zero [simp]: "to_double 0 = Finite 0"
  by (simp add: to_double_def)


lemma to_double_numeral:
  "numeral w < (2 :: nat) ^ 53 \<Longrightarrow> to_double (numeral w) = Finite (numeral w)"
  using to_double_of_int [of "numeral w"] by simp

section \<open>When a step raises\<close>

lemma ToString_join_ok:
  "(stringable v \<longrightarrow> (\<exists>s. ToString js v = Inr s)) \<and> (\<not> stringable v \<longrightarrow> ToString js v = Inl TypeError)"
  "(list_all (\<lambda>x. nullish x \<or> stringable x) xs \<longrightarrow> (\<exists>s. join js xs = Inr s)) \<and>
   (\<not> list_all (\<lambda>x. nullish x \<or> stringable x) xs \<longrightarrow> join js xs = Inl TypeError)"
  by (induction js v and js xs rule: ToString_join.induct) (auto split: sum.splits)

lemma ToString_Inl: "(ToString js v = Inl err) = (err = TypeError \<and> \<not> stringable v)"
  using ToString_join_ok(1) [of v js] by (cases "stringable v") auto

lemma ToString_Inr: "ToString js v = Inr s \<Longrightarrow> stringable v"
  using ToString_join_ok(1) [of v js] by (cases "stringable v") auto

lemma join_Inl: "(join js xs = Inl err) = (err = TypeError \<and> \<not> stringable (JArr xs))"
  using ToString_Inl [of js "JArr xs" err] by simp

lemma join_Inr: "join js xs = Inr s \<Longrightarrow> stringable (JArr xs)"
  using ToString_Inr [of js "JArr xs" s] by simp

lemma ToNumber_Inl: "(ToNumber js v = Inl err) = (err = TypeError \<and> \<not> stringable v)"
  by (cases v) (auto simp: join_Inl split: sum.splits dest: join_Inr)

lemma ToNumber_Inr: "ToNumber js v = Inr n \<Longrightarrow> stringable v"
  using ToNumber_Inl [of js v TypeError] by (cases "stringable v") auto

lemma js_minus_Inl:
  "(js_minus js a b = Inl err) = (err = TypeError \<and> \<not> (stringable a \<and> stringable b))"
  by (auto simp: js_minus_def ToNumber_Inl split: sum.splits dest: ToNumber_Inr)

lemma js_minus_Inr: "js_minus js a b = Inr n \<Longrightarrow> stringable a \<and> stringable b"
  using js_minus_Inl [of js a b TypeError] by (cases "stringable a \<and> stringable b") auto

lemma stringable_index [simp]: "stringable (index js v i) = stringable (element v i)"
  by (cases v) (auto simp: index_def split: option.splits)

lemma evidence_of_Inl: "(evidence_of js fid item = Inl err) = (err = TypeError \<and> \<not> box_ok item)"
  by (auto simp: evidence_of_def box_ok_def Let_def js_minus_Inl split: sum.splits dest: js_minus_Inr)

lemma evidence_of_Inr: "evidence_of js fid item = Inr ev \<Longrightarrow> box_ok item"
  using evidence_of_Inl [of js fid item TypeError] by (cases "box_ok item") auto

lemma get_prop_field: "\<not> nullish v \<Longrightarrow> get_prop v k = Inr (field v k)"
  by (cases v) (auto simp: field_def)

lemma get_prop_nullish: "nullish v \<Longrightarrow> get_prop v k = Inl TypeError"
  by (cases v) auto

lemma highlight_Inl:
  "(highlight js e data fid cat k item = Inl err) = (err = TypeError \<and> \<not> item_ok item)"
  by (cases "nullish item")
    (auto simp: highlight_def item_ok_def get_prop_field get_prop_nullish ToString_Inl evidence_of_Inl
      split: sum.splits dest: ToString_Inr evidence_of_Inr)

lemma highlight_Inr: "highlight js e data fid cat k item = Inr f \<Longrightarrow> item_ok item"
  using highlight_Inl [of js e data fid cat k item TypeError] by (cases "item_ok item") auto

lemma forEach_push_Inl:
  "(forEach_push js e data fid cat items fs = Inl err) = (err = TypeError \<and> \<not> list_all item_ok items)"
  by (induction items arbitrary: fs) (auto simp: highlight_Inl split: sum.splits dest: highlight_Inr)

lemma forEach_push_Inr:
  "forEach_push js e data fid cat items fs = Inr gs \<Longrightarrow>
     \<exists>hs. gs = fs @ hs \<and> length hs = length items \<and>
       (\<forall>i<length items. highlight js e data fid cat (length fs + i) (items ! i) = Inr (hs ! i))"
proof (induction items arbitrary: fs)
  case Nil
  then show ?case by simp
next
  case (Cons item items)
  from Cons.prems obtain f where f: "highlight js e data fid cat (length fs) item = Inr f"
    and rest: "forEach_push js e data fid cat items (fs @ [f]) = Inr gs"
    by (auto split: sum.splits)
  from Cons.IH [OF rest] obtain hs where hs: "gs = (fs @ [f]) @ hs" "length hs = length items"
    "\<forall>i<length items. highlight js e data fid cat (length (fs @ [f]) + i) (items ! i) = Inr (hs ! i)"
    by blast
  have "\<forall>i<length (item # items).
          highlight js e data fid cat (length fs + i) ((item # items) ! i) = Inr ((f # hs) ! i)"
  proof (intro allI impI)
    fix i assume "i < length (item # items)"
    then show "highlight js e data fid cat (length fs + i) ((item # items) ! i) = Inr ((f # hs) ! i)"
      using f hs(3) by (cases i) auto
  qed
  with hs show ?case by (intro exI [of _ "f # hs"]) simp
qed

lemma processHighlights_Inl:
  "(processHighlights js e data fid v cat fs = Inl err) = (err = TypeError \<and> \<not> items_ok v)"
  by (cases v) (auto simp: processHighlights_def items_ok_def forEach_push_Inl)

lemma processHighlights_Inr:
  "processHighlights js e data fid v cat fs = Inr gs \<Longrightarrow>
     \<exists>hs. gs = fs @ hs \<and> length hs = length (entries v) \<and>
       (\<forall>i<length (entries v).
           highlight js e data fid cat (length fs + i) (entries v ! i) = Inr (hs ! i))"
  using forEach_push_Inr [of js e data fid cat "entries v" fs gs]
  by (cases v) (auto simp: processHighlights_def entries_def split: if_splits)

lemma file_type_text_Inl:
  "(file_type_text js v = Inl err) = (err = TypeError \<and> \<not> file_type_ok v)"
  by (cases v) (auto simp: file_type_text_def file_type_ok_def)

lemma classification_Inl:
  "(classification js e data k = Inl err) = (err = TypeError \<and> \<not> file_type_ok (field data ''file_type''))"
  by (auto simp: classification_def file_type_text_Inl split: sum.splits)
   (auto simp: file_type_text_def file_type_ok_def split: if_splits jsval.splits)

section \<open>What the mapping returns\<close>

lemma processHighlights_ok:
  "processHighlights js e data fid v cat fs = Inr gs \<Longrightarrow> items_ok v"
  using processHighlights_Inl [of js e data fid v cat fs TypeError] by (cases "items_ok v") auto

lemma classification_ok:
  "classification js e data k = Inr ft \<Longrightarrow> file_type_ok (field data ''file_type'')"
  using classification_Inl [of js e data k TypeError]
  by (cases "file_type_ok (field data ''file_type'')") auto

lemma mapModelResponseToApp_Inl:
  "(mapModelResponseToApp js e data fid = Inl err) = (err = TypeError \<and> \<not> payload_ok data)"
  by (cases "nullish data")
    (auto simp: mapModelResponseToApp_def payload_ok_def regions_of_interest_def artifacts_def
       get_prop_field get_prop_nullish processHighlights_Inl classification_Inl
       split: sum.splits dest: processHighlights_ok classification_ok)

lemma mapModelResponseToApp_Inr:
  assumes "mapModelResponseToApp js e data fid = Inr res"
  shows "\<exists>ft hs. findings res = ft # hs
           \<and> classification js e data (length hs) = Inr ft
           \<and> length hs = length (highlights_of data)
           \<and> (\<forall>i<length (highlights_of data).
                 highlight js e data fid Finding i (highlights_of data ! i) = Inr (hs ! i))"
proof -
  from assms have nn: "\<not> nullish data"
    by (cases "nullish data") (auto simp: mapModelResponseToApp_def get_prop_nullish)
  from assms nn obtain fs1 fs2 ft where
    p1: "processHighlights js e data fid (regions_of_interest data) Finding [] = Inr fs1" and
    p2: "processHighlights js e data fid (artifacts data) Finding fs1 = Inr fs2" and
    c: "classification js e data (length fs2) = Inr ft" and
    r: "findings res = ft # fs2"
    by (auto simp: mapModelResponseToApp_def get_prop_field regions_of_interest_def artifacts_def
        split: sum.splits)
  let ?rs = "entries (regions_of_interest data)" and ?as = "entries (artifacts data)"
  from processHighlights_Inr [OF p1] have l1: "length fs1 = length ?rs"
    and h1: "\<forall>i<length ?rs. highlight js e data fid Finding i (?rs ! i) = Inr (fs1 ! i)"
    by auto
  from processHighlights_Inr [OF p2] obtain hs where hs: "fs2 = fs1 @ hs" "length hs = length ?as"
    "\<forall>i<length ?as. highlight js e data fid Finding (length fs1 + i) (?as ! i) = Inr (hs ! i)"
    by auto
  have "\<forall>i<length (highlights_of data).
          highlight js e data fid Finding i (highlights_of data ! i) = Inr (fs2 ! i)"
  proof (intro allI impI)
    fix i assume i: "i < length (highlights_of data)"
    show "highlight js e data fid Finding i (highlights_of data ! i) = Inr (fs2 ! i)"
    proof (cases "i < length ?rs")
      case True
      with h1 l1 hs(1) show ?thesis by (simp add: highlights_of_def nth_append)
    next
      case False
      with i have "i - length ?rs < length ?as" by (simp add: highlights_of_def)
      with hs(3) l1 False have
        "highlight js e data fid Finding i (?as ! (i - length ?rs)) = Inr (hs ! (i - length ?rs))"
        by (metis add_diff_inverse_nat)
      with False l1 hs(1) show ?thesis by (simp add: highlights_of_def nth_append)
    qed
  qed
  moreover have "length fs2 = length (highlights_of data)"
    using l1 hs by (simp add: highlights_of_def)
  ultimately show ?thesis using r c by blast
qed

lemma mapModelResponseToApp_returns:
  "payload_ok data \<Longrightarrow> \<exists>res. mapModelResponseToApp js e data fid = Inr res"
  using mapModelResponseToApp_Inl [of js e data fid]
  by (cases "mapModelResponseToApp js e data fid") auto

lemma mapModelResponseToApp_summaries:
  assumes "mapModelResponseToApp js e data fid = Inr res"
  shows "summary res = js_or (field data ''summary_patient'') (JStr ''Analysis complete.'')"
    and "summaryPatient res = js_or (field data ''summary_patient'') (JStr [])"
    and "summaryStudent res = js_or (field data ''summary_student'') (JStr [])"
    and "summaryDoctor res = js_or (field data ''summary_doctor'') (JStr [])"
    and "summaryPatientEn res =
           js_or (field data ''summary_patient_en'') (js_or (field data ''summary_patient'') (JStr []))"
    and "summaryStudentEn res =
           js_or (field data ''summary_student_en'') (js_or (field data ''summary_student'') (JStr []))"
    and "summaryDoctorEn res =
           js_or (field data ''summary_doctor_en'') (js_or (field data ''summary_doctor'') (JStr []))"
    and "recommendationsPatient res = js_or (field data ''recommendations_patient'') (JArr [])"
    and "recommendationsStudent res = js_or (field data ''recommendations_student'') (JArr [])"
    and "recommendationsDoctor res = js_or (field data ''recommendations_doctor'') (JArr [])"
    and "recommendationsPatientEn res =
           js_or (field data ''recommendations_patient_en'')
             (js_or (field data ''recommendations_patient'') (JArr []))"
    and "recommendationsStudentEn res =
           js_or (field data ''recommendations_student_en'')
             (js_or (field data ''recommendations_student'') (JArr []))"
    and "recommendationsDoctorEn res =
           js_or (field data ''recommendations_doctor_en'')
             (js_or (field data ''recommendations_doctor'') (JArr []))"
  using assms by (auto simp: mapModelResponseToApp_def split: sum.splits)

lemma highlight_fields:
  assumes "highlight js e data fid cat k item = Inr f"
  shows "category f = cat"
    and "confidence f = js_or (field item ''confidence'') (JNum 0.8)"
    and "evidence_of js fid item = Inr (evidence f)"
    and "feedback f = None"
    and "finding_id f = ''find-'' @ decimal (date_now e k) @ ''-'' @ take 5 (drop 2 (math_random_36 e k))"
  using assms by (auto simp: highlight_def split: sum.splits)

lemma classification_fields:
  assumes "classification js e data k = Inr ft"
  shows "category ft = Impression"
    and "confidence ft = js_or (field data ''confidence_overall'') (JNum 0.9)"
    and "evidence ft = []"
    and "finding_id ft = ''ft-'' @ decimal (date_now e k)"
  using assms by (auto simp: classification_def split: sum.splits)

lemma js_or_defined: "d \<noteq> JUndefined \<Longrightarrow> js_or v d \<noteq> JUndefined"
  by (cases v) (auto simp: js_or_def)

lemma entries_falsy: "\<not> truthy v \<Longrightarrow> entries v = []"
  by (cases v) (simp_all add: entries_def)

lemma entries_empty: "entries (JArr []) = []"
  by (simp add: entries_def)

lemma evidence_of_quadruple:
  assumes "field item ''box_2d'' = JArr [JNum ymin, JNum xmin, JNum ymax, JNum xmax]"
  shows "evidence_of js fid item =
     Inr [\<lparr>fileId = fid,
           ev_confidence = js_or (field item ''confidence'') (JNum 0.8),
           source = ''MODEL_VISION'',
           bbox = \<lparr>bbox_y = JNum ymin, bbox_x = JNum xmin,
                    bbox_height = minus_number (to_double ymax) (to_double ymin),
                    bbox_width = minus_number (to_double xmax) (to_double xmin)\<rparr>\<rparr>]"
  using assms by (simp add: evidence_of_def js_minus_def index_def)

lemma evidence_of_truthy_box:
  assumes "truthy (field item ''box_2d'')" and "evidence_of js fid item = Inr evs"
  shows "\<exists>b. evs = [\<lparr>fileId = fid,
                       ev_confidence = js_or (field item ''confidence'') (JNum 0.8),
                       source = ''MODEL_VISION'', bbox = b\<rparr>]"
  using assms by (auto simp: evidence_of_def Let_def split: sum.splits)

lemma evidence_of_no_box:
  "\<not> truthy (field item ''box_2d'') \<Longrightarrow> evidence_of js fid item = Inr []"
  by (simp add: evidence_of_def)

section \<open>Claims about the mapping\<close>

lemma payload_ok_scenario: "payload_ok scenario_payload"
  by (simp add: payload_ok_def scenario_payload_def scenario_object_def nodule_def
      regions_of_interest_def artifacts_def opt_field_def field_def items_ok_def item_ok_def
      box_ok_def file_type_ok_def)


text \<open>
  Claim C1, as stated, promises \<open>1 + N + M\<close> findings for every raw payload. The
  mapping raises TypeError on a payload whose only region is \<open>null\<close>, so it produces
  no list of findings there.
\<close>

theorem normalize_null_region_raises:
  "mapModelResponseToApp example_builtins example_effects null_region_payload ''file-1''
     = Inl TypeError"
  by (simp add: mapModelResponseToApp_def null_region_payload_def opt_field_def field_def
      processHighlights_def highlight_def)

text \<open>
  Claim C1, amended: for every payload on which no step of the mapping raises
  (\<open>payload_ok\<close>), with \<open>N\<close> entries in \<open>highlights.regions_of_interest\<close> and \<open>M\<close>
  entries in \<open>highlights.artifacts\<close>, the mapping returns exactly \<open>1 + N + M\<close> findings:
  the file-classification finding of category Impression at index 0, then the finding of
  each region in the order of the list, then the finding of each artifact in the order
  of the list. A missing, falsy or empty list has no entries and adds no finding.
\<close>

theorem normalize_findings_order:
  assumes "payload_ok data"
  shows "\<exists>res ft hs.
      mapModelResponseToApp js e data fid = Inr res
    \<and> findings res = ft # hs
    \<and> length (findings res)
        = 1 + length (entries (regions_of_interest data)) + length (entries (artifacts data))
    \<and> classification js e data (length hs) = Inr ft
    \<and> category ft = Impression
    \<and> (\<forall>i<length (entries (regions_of_interest data)).
          highlight js e data fid Finding i (entries (regions_of_interest data) ! i)
            = Inr (hs ! i))
    \<and> (\<forall>j<length (entries (artifacts data)).
          highlight js e data fid Finding (length (entries (regions_of_interest data)) + j)
              (entries (artifacts data) ! j)
            = Inr (hs ! (length (entries (regions_of_interest data)) + j)))"
proof -
  let ?rs = "entries (regions_of_interest data)" and ?as = "entries (artifacts data)"
  from assms obtain res where res: "mapModelResponseToApp js e data fid = Inr res"
    using mapModelResponseToApp_returns by blast
  from mapModelResponseToApp_Inr [OF res] obtain ft hs where
    f: "findings res = ft # hs" and c: "classification js e data (length hs) = Inr ft" and
    l: "length hs = length (highlights_of data)" and
    h: "\<And>i. i < length (highlights_of data) \<Longrightarrow>
          highlight js e data fid Finding i (highlights_of data ! i) = Inr (hs ! i)"
    by blast
  have len: "length (highlights_of data) = length ?rs + length ?as"
    by (simp add: highlights_of_def)
  have regions: "\<forall>i<length ?rs. highlight js e data fid Finding i (?rs ! i) = Inr (hs ! i)"
  proof (intro allI impI)
    fix i assume i: "i < length ?rs"
    then have "highlights_of data ! i = ?rs ! i" by (simp add: highlights_of_def nth_append)
    with h [of i] i len show "highlight js e data fid Finding i (?rs ! i) = Inr (hs ! i)"
      by simp
  qed
  have arts: "\<forall>j<length ?as.
      highlight js e data fid Finding (length ?rs + j) (?as ! j) = Inr (hs ! (length ?rs + j))"
  proof (intro allI impI)
    fix j assume j: "j < length ?as"
    then have "highlights_of data ! (length ?rs + j) = ?as ! j"
      by (simp add: highlights_of_def nth_append)
    with h [of "length ?rs + j"] j len show
      "highlight js e data fid Finding (length ?rs + j) (?as ! j) = Inr (hs ! (length ?rs + j))"
      by simp
  qed
  from f l len have "length (findings res) = 1 + length ?rs + length ?as" by simp
  with res f c classification_fields(1) [OF c] regions arts show ?thesis by blast
qed


theorem normalize_findings_order_witness:
  "payload_ok scenario_payload
   \<and> (\<exists>res. mapModelResponseToApp example_builtins example_effects scenario_payload ''file-1''
               = Inr res
            \<and> length (findings res) = 2 \<and> category (hd (findings res)) = Impression)"
proof -
  have ok: "payload_ok scenario_payload" by (rule payload_ok_scenario)
  have n: "length (entries (regions_of_interest scenario_payload)) = 1"
    and m: "length (entries (artifacts scenario_payload)) = 0"
    by (simp_all add: scenario_payload_def scenario_object_def regions_of_interest_def
        artifacts_def opt_field_def field_def entries_def)
  from normalize_findings_order [OF ok, of example_builtins example_effects "''file-1''"] n m ok
  show ?thesis by auto
qed


lemma highlight_erase_sum:
  "map_sum id erase_id (highlight js e1 data fid cat k item)
     = map_sum id erase_id (highlight js e2 data fid cat k item)"
  by (simp add: highlight_def erase_id_def split: sum.splits)

lemma highlight_erase_id:
  assumes "highlight js e1 data fid cat k item = Inr f1"
    and "highlight js e2 data fid cat k item = Inr f2"
  shows "erase_id f1 = erase_id f2"
  using highlight_erase_sum [of js e1 data fid cat k item e2] assms by simp

lemma classification_erase_sum:
  "map_sum id erase_id (classification js e1 data k)
     = map_sum id erase_id (classification js e2 data k)"
  by (simp add: classification_def erase_id_def split: sum.splits)

lemma classification_erase_id:
  assumes "classification js e1 data k = Inr f1"
    and "classification js e2 data k = Inr f2"
  shows "erase_id f1 = erase_id f2"
  using classification_erase_sum [of js e1 data k e2] assms by simp

lemma mapModelResponseToApp_erase_ids:
  assumes r1: "mapModelResponseToApp js e1 data fid = Inr res1"
    and r2: "mapModelResponseToApp js e2 data fid = Inr res2"
  shows "erase_ids res1 = erase_ids res2"
proof -
  from mapModelResponseToApp_Inr [OF r1] obtain ft1 hs1 where
    f1: "findings res1 = ft1 # hs1" and c1: "classification js e1 data (length hs1) = Inr ft1" and
    l1: "length hs1 = length (highlights_of data)" and
    h1: "\<And>i. i < length (highlights_of data) \<Longrightarrow>
          highlight js e1 data fid Finding i (highlights_of data ! i) = Inr (hs1 ! i)"
    by blast
  from mapModelResponseToApp_Inr [OF r2] obtain ft2 hs2 where
    f2: "findings res2 = ft2 # hs2" and c2: "classification js e2 data (length hs2) = Inr ft2" and
    l2: "length hs2 = length (highlights_of data)" and
    h2: "\<And>i. i < length (highlights_of data) \<Longrightarrow>
          highlight js e2 data fid Finding i (highlights_of data ! i) = Inr (hs2 ! i)"
    by blast
  from c2 l1 l2 have "classification js e2 data (length hs1) = Inr ft2" by simp
  from classification_erase_id [OF c1 this] have ft: "erase_id ft1 = erase_id ft2" .
  have "map erase_id hs1 = map erase_id hs2"
  proof (rule nth_equalityI)
    show "length (map erase_id hs1) = length (map erase_id hs2)" using l1 l2 by simp
  next
    fix i assume "i < length (map erase_id hs1)"
    then have i: "i < length (highlights_of data)" using l1 by simp
    from highlight_erase_id [OF h1 [OF i] h2 [OF i]] i l1 l2
    show "map erase_id hs1 ! i = map erase_id hs2 ! i" by simp
  qed
  with ft f1 f2 have fs: "map erase_id (findings res1) = map erase_id (findings res2)" by simp
  show ?thesis
    by (rule AnalysisResult.equality)
      (simp_all add: erase_ids_def fs mapModelResponseToApp_summaries [OF r1]
        mapModelResponseToApp_summaries [OF r2])
qed

lemma payload_ok_mockData: "payload_ok mockData"
  by (simp add: payload_ok_def mockData_def
      regions_of_interest_def artifacts_def opt_field_def field_def items_ok_def item_ok_def
      box_ok_def file_type_ok_def)

lemma highlights_of_mockData:
  "highlights_of mockData =
     [JObj [(''label'', JStr ''Configuration Error''),
            (''description'', JStr ''API Key Not Found''),
            (''confidence'', JNum 1.0),
            (''box_2d'', JArr [JNum 10, JNum 10, JNum 90, JNum 90])]]"
  by (simp add: highlights_of_def mockData_def regions_of_interest_def artifacts_def opt_field_def
      field_def entries_def)


text \<open>
  Claim C4, as stated, makes two runs on the same \<open>(rawJson, fileId)\<close> return identical
  results, identifiers included. The identifiers are built from \<open>Date.now()\<close> and
  \<open>Math.random()\<close>: two runs on the simulated payload with different readings return
  different results.
\<close>

theorem normalize_two_runs_differ:
  "mapModelResponseToApp example_builtins example_effects mockData ''file-1''
     \<noteq> mapModelResponseToApp example_builtins later_effects mockData ''file-1''"
proof
  assume eq: "mapModelResponseToApp example_builtins example_effects mockData ''file-1''
     = mapModelResponseToApp example_builtins later_effects mockData ''file-1''"
  from mapModelResponseToApp_returns [OF payload_ok_mockData] obtain res where
    r1: "mapModelResponseToApp example_builtins example_effects mockData ''file-1'' = Inr res"
    by blast
  with eq have
    r2: "mapModelResponseToApp example_builtins later_effects mockData ''file-1'' = Inr res"
    by simp
  from mapModelResponseToApp_Inr [OF r1] obtain ft hs where
    "findings res = ft # hs" "length hs = length (highlights_of mockData)"
    "\<And>i. i < length (highlights_of mockData) \<Longrightarrow>
          highlight example_builtins example_effects mockData ''file-1'' Finding i
           (highlights_of mockData ! i) = Inr (hs ! i)"
    by blast
  then have a: "highlight example_builtins example_effects mockData ''file-1'' Finding 0
           (highlights_of mockData ! 0) = Inr (findings res ! 1)"
    by (simp add: highlights_of_mockData)
  from mapModelResponseToApp_Inr [OF r2] obtain ft' hs' where
    "findings res = ft' # hs'" "length hs' = length (highlights_of mockData)"
    "\<And>i. i < length (highlights_of mockData) \<Longrightarrow>
          highlight example_builtins later_effects mockData ''file-1'' Finding i
           (highlights_of mockData ! i) = Inr (hs' ! i)"
    by blast
  then have b: "highlight example_builtins later_effects mockData ''file-1'' Finding 0
           (highlights_of mockData ! 0) = Inr (findings res ! 1)"
    by (simp add: highlights_of_mockData)
  from highlight_fields(5) [OF a] highlight_fields(5) [OF b]
  show False by (simp add: example_effects_def later_effects_def)
qed

text \<open>
  Claim C4, amended: the mapping is deterministic up to the identifiers of the findings.
  Two runs on the same \<open>(rawJson, fileId)\<close>, whatever the clock and the random generator
  give them, both raise the same error or return results that agree once the
  identifiers of the findings are blanked.
\<close>

theorem normalize_deterministic_up_to_ids:
  "map_sum id erase_ids (mapModelResponseToApp js e1 data fid)
     = map_sum id erase_ids (mapModelResponseToApp js e2 data fid)"
proof (cases "payload_ok data")
  case True
  from mapModelResponseToApp_returns [OF True] obtain res1 res2 where
    r: "mapModelResponseToApp js e1 data fid = Inr res1"
       "mapModelResponseToApp js e2 data fid = Inr res2"
    by blast
  from mapModelResponseToApp_erase_ids [OF r] r show ?thesis by simp
next
  case False
  then have "mapModelResponseToApp js e1 data fid = Inl TypeError"
    "mapModelResponseToApp js e2 data fid = Inl TypeError"
    by (simp_all add: mapModelResponseToApp_Inl)
  then show ?thesis by simp
qed


lemma payload_ok_zero_overall: "payload_ok zero_overall_payload"
  by (simp add: payload_ok_def zero_overall_payload_def
      regions_of_interest_def artifacts_def opt_field_def field_def items_ok_def file_type_ok_def)

text \<open>
  What the mapping does for a missing confidence: the finding of an entry without
  \<open>confidence\<close> gets 0.8, the file-classification finding gets 0.9 when the payload has
  no \<open>confidence_overall\<close> and the model's value when that is truthy, and no finding
  is left without a confidence.
\<close>

lemma confidence_defaults:
  assumes "payload_ok data"
  shows "\<exists>res.
      mapModelResponseToApp js e data fid = Inr res
    \<and> (\<forall>i<length (highlights_of data).
          field (highlights_of data ! i) ''confidence'' = JUndefined
          \<longrightarrow> confidence (findings res ! Suc i) = JNum 0.8)
    \<and> (field data ''confidence_overall'' = JUndefined
          \<longrightarrow> confidence (findings res ! 0) = JNum 0.9)
    \<and> (truthy (field data ''confidence_overall'')
          \<longrightarrow> confidence (findings res ! 0) = field data ''confidence_overall'')
    \<and> list_all (\<lambda>f. confidence f \<noteq> JUndefined) (findings res)"
proof -
  from mapModelResponseToApp_returns [OF assms] obtain res where
    r: "mapModelResponseToApp js e data fid = Inr res"
    by blast
  from mapModelResponseToApp_Inr [OF r] obtain ft hs where
    f: "findings res = ft # hs" and c: "classification js e data (length hs) = Inr ft" and
    l: "length hs = length (highlights_of data)" and
    h: "\<And>i. i < length (highlights_of data) \<Longrightarrow>
          highlight js e data fid Finding i (highlights_of data ! i) = Inr (hs ! i)"
    by blast
  have a: "\<forall>i<length (highlights_of data).
          field (highlights_of data ! i) ''confidence'' = JUndefined
          \<longrightarrow> confidence (findings res ! Suc i) = JNum 0.8"
    using highlight_fields(2) [OF h] f by (simp add: js_or_def)
  have b: "field data ''confidence_overall'' = JUndefined
          \<longrightarrow> confidence (findings res ! 0) = JNum 0.9"
    "truthy (field data ''confidence_overall'')
          \<longrightarrow> confidence (findings res ! 0) = field data ''confidence_overall''"
    using classification_fields(2) [OF c] f by (simp_all add: js_or_def)
  have "confidence ft \<noteq> JUndefined"
    using classification_fields(2) [OF c] by (simp add: js_or_defined)
  moreover have "list_all (\<lambda>f. confidence f \<noteq> JUndefined) hs"
    unfolding list_all_length using highlight_fields(2) [OF h] l by (simp add: js_or_defined)
  ultimately have d: "list_all (\<lambda>f. confidence f \<noteq> JUndefined) (findings res)"
    using f by simp
  from r a b d show ?thesis by blast
qed

text \<open>
  Claim C5 gives the file-classification finding the model's \<open>confidence_overall\<close>, and
  0.9 only when that is absent. On a payload that declares \<open>confidence_overall\<close> 0 the
  finding gets 0.9: \<open>||\<close> takes 0 for a missing value.
\<close>

theorem normalize_zero_overall_confidence:
  "field zero_overall_payload ''confidence_overall'' = JNum 0
   \<and> map_sum id (confidence \<circ> hd \<circ> findings)
        (mapModelResponseToApp example_builtins example_effects zero_overall_payload ''file-1'')
      = Inr (JNum 0.9)"
proof -
  from mapModelResponseToApp_returns [OF payload_ok_zero_overall] obtain res where
    r: "mapModelResponseToApp example_builtins example_effects zero_overall_payload ''file-1''
          = Inr res"
    by blast
  from mapModelResponseToApp_Inr [OF r] obtain ft hs where
    f: "findings res = ft # hs" and
    c: "classification example_builtins example_effects zero_overall_payload (length hs) = Inr ft"
    by blast
  have z: "field zero_overall_payload ''confidence_overall'' = JNum 0"
    by (simp add: zero_overall_payload_def field_def)
  from classification_fields(2) [OF c] z have "confidence ft = JNum 0.9"
    by (simp add: js_or_def)
  with r f z show ?thesis by simp
qed

lemma payload_ok_empty_english: "payload_ok empty_english_payload"
  by (simp add: payload_ok_def empty_english_payload_def
      regions_of_interest_def artifacts_def opt_field_def field_def items_ok_def file_type_ok_def)


text \<open>
  Claim C6, as stated, makes each English field equal to the model's English-specific
  field when that is present. A payload with an empty English patient summary and the
  patient summary \<open>hola\<close> gets \<open>hola\<close> as its English patient summary.
\<close>

theorem normalize_empty_english_summary:
  "field empty_english_payload ''summary_patient_en'' = JStr []
   \<and> map_sum id summaryPatientEn
        (mapModelResponseToApp example_builtins example_effects empty_english_payload ''file-1'')
      = Inr (JStr ''hola'')"
proof -
  from mapModelResponseToApp_returns [OF payload_ok_empty_english] obtain res where
    r: "mapModelResponseToApp example_builtins example_effects empty_english_payload ''file-1''
          = Inr res"
    by blast
  have "summaryPatientEn res = JStr ''hola''"
    by (simp add: mapModelResponseToApp_summaries(5) [OF r] empty_english_payload_def field_def
        js_or_def)
  with r show ?thesis by (simp add: empty_english_payload_def field_def)
qed

text \<open>
  Claim C6, amended: on every payload on which the mapping returns, each of the six
  English fields is the model's English-specific field when that is truthy (present and
  not \<open>null\<close>, \<open>false\<close>, 0 or the empty string), else the localized field when
  that is truthy, else the empty string (summaries) or the empty list
  (recommendations); none of the twelve audience fields is \<open>undefined\<close>.
\<close>

theorem normalize_english_fallbacks:
  assumes "payload_ok data"
  shows "\<exists>res.
      mapModelResponseToApp js e data fid = Inr res
    \<and> summaryPatientEn res =
        (if truthy (field data ''summary_patient_en'') then field data ''summary_patient_en''
         else if truthy (field data ''summary_patient'') then field data ''summary_patient''
         else JStr [])
    \<and> summaryStudentEn res =
        (if truthy (field data ''summary_student_en'') then field data ''summary_student_en''
         else if truthy (field data ''summary_student'') then field data ''summary_student''
         else JStr [])
    \<and> summaryDoctorEn res =
        (if truthy (field data ''summary_doctor_en'') then field data ''summary_doctor_en''
         else if truthy (field data ''summary_doctor'') then field data ''summary_doctor''
         else JStr [])
    \<and> recommendationsPatientEn res =
        (if truthy (field data ''recommendations_patient_en'')
         then field data ''recommendations_patient_en''
         else if truthy (field data ''recommendations_patient'')
         then field data ''recommendations_patient''
         else JArr [])
    \<and> recommendationsStudentEn res =
        (if truthy (field data ''recommendations_student_en'')
         then field data ''recommendations_student_en''
         else if truthy (field data ''recommendations_student'')
         then field data ''recommendations_student''
         else JArr [])
    \<and> recommendationsDoctorEn res =
        (if truthy (field data ''recommendations_doctor_en'')
         then field data ''recommendations_doctor_en''
         else if truthy (field data ''recommendations_doctor'')
         then field data ''recommendations_doctor''
         else JArr [])
    \<and> list_all (\<lambda>v. v \<noteq> JUndefined)
        [summaryPatient res, summaryStudent res, summaryDoctor res,
         summaryPatientEn res, summaryStudentEn res, summaryDoctorEn res,
         recommendationsPatient res, recommendationsStudent res, recommendationsDoctor res,
         recommendationsPatientEn res, recommendationsStudentEn res,
         recommendationsDoctorEn res]"
proof -
  from mapModelResponseToApp_returns [OF assms] obtain res where
    r: "mapModelResponseToApp js e data fid = Inr res"
    by blast
  note s = mapModelResponseToApp_summaries [OF r]
  have en: "summaryPatientEn res =
        (if truthy (field data ''summary_patient_en'') then field data ''summary_patient_en''
         else if truthy (field data ''summary_patient'') then field data ''summary_patient''
         else JStr [])"
    "summaryStudentEn res =
        (if truthy (field data ''summary_student_en'') then field data ''summary_student_en''
         else if truthy (field data ''summary_student'') then field data ''summary_student''
         else JStr [])"
    "summaryDoctorEn res =
        (if truthy (field data ''summary_doctor_en'') then field data ''summary_doctor_en''
         else if truthy (field data ''summary_doctor'') then field data ''summary_doctor''
         else JStr [])"
    "recommendationsPatientEn res =
        (if truthy (field data ''recommendations_patient_en'')
         then field data ''recommendations_patient_en''
         else if truthy (field data ''recommendations_patient'')
         then field data ''recommendations_patient''
         else JArr [])"
    "recommendationsStudentEn res =
        (if truthy (field data ''recommendations_student_en'')
         then field data ''recommendations_student_en''
         else if truthy (field data ''recommendations_student'')
         then field data ''recommendations_student''
         else JArr [])"
    "recommendationsDoctorEn res =
        (if truthy (field data ''recommendations_doctor_en'')
         then field data ''recommendations_doctor_en''
         else if truthy (field data ''recommendations_doctor'')
         then field data ''recommendations_doctor''
         else JArr [])"
    by (simp_all add: s js_or_def)
  have d: "list_all (\<lambda>v. v \<noteq> JUndefined)
        [summaryPatient res, summaryStudent res, summaryDoctor res,
         summaryPatientEn res, summaryStudentEn res, summaryDoctorEn res,
         recommendationsPatient res, recommendationsStudent res, recommendationsDoctor res,
         recommendationsPatientEn res, recommendationsStudentEn res,
         recommendationsDoctorEn res]"
    by (simp add: s js_or_defined)
  from r en d show ?thesis by blast
qed

theorem normalize_english_fallbacks_witness:
  "payload_ok empty_english_payload
   \<and> (\<exists>res. mapModelResponseToApp example_builtins example_effects empty_english_payload
              ''file-1'' = Inr res
            \<and> summaryPatientEn res = JStr ''hola''
            \<and> summaryDoctorEn res = JStr []
            \<and> recommendationsPatientEn res = JArr [])"
proof -
  have ok: "payload_ok empty_english_payload" by (rule payload_ok_empty_english)
  from normalize_english_fallbacks [OF ok, of example_builtins example_effects "''file-1''"] ok
  show ?thesis by (auto simp: empty_english_payload_def field_def)
qed

lemma highlights_of_scenario_payload: "highlights_of scenario_payload = [nodule]"
  by (simp add: highlights_of_def scenario_payload_def scenario_object_def
      regions_of_interest_def artifacts_def opt_field_def field_def entries_def)

lemma exact_difference:
  assumes "nat \<bar>p\<bar> < 2 ^ 53" and "nat \<bar>q\<bar> < 2 ^ 53" and "nat \<bar>p - q\<bar> < 2 ^ 53"
  shows "minus_number (to_double (of_int p)) (to_double (of_int q)) = Finite (of_int (p - q))"
  using to_double_of_int [OF assms(1)] to_double_of_int [OF assms(2)]
    to_double_of_int [OF assms(3)]
  by simp

lemma scenario_differences:
  "minus_number (to_double 30) (to_double 10) = Finite 20"
  "minus_number (to_double 40) (to_double 20) = Finite 20"
  by (simp_all add: to_double_numeral)

text \<open>
  Claim C7, as stated, gives an evidence record to every entry that supplies a
  \<open>box_2d\<close> quadruple. The mapping validates nothing: on a payload whose first region
  is the region of the scenario and whose second region is \<open>null\<close> it raises
  TypeError, and the first region gets no evidence.
\<close>

theorem normalize_quadruple_then_null_raises:
  "field (highlights_of nodule_then_null_payload ! 0) ''box_2d''
     = JArr [JNum 10, JNum 20, JNum 30, JNum 40]
   \<and> mapModelResponseToApp example_builtins example_effects nodule_then_null_payload ''file-1''
     = Inl TypeError"
proof -
  have "\<not> payload_ok nodule_then_null_payload"
    by (simp add: payload_ok_def nodule_then_null_payload_def regions_of_interest_def
        opt_field_def field_def items_ok_def item_ok_def)
  then have "mapModelResponseToApp example_builtins example_effects nodule_then_null_payload
      ''file-1'' = Inl TypeError"
    by (simp add: mapModelResponseToApp_Inl)
  moreover have "field (highlights_of nodule_then_null_payload ! 0) ''box_2d''
     = JArr [JNum 10, JNum 20, JNum 30, JNum 40]"
    by (simp add: highlights_of_def nodule_then_null_payload_def regions_of_interest_def
        artifacts_def opt_field_def field_def entries_def nodule_def)
  ultimately show ?thesis by simp
qed

text \<open>
  Claim C7, amended: on every payload on which the mapping returns, the finding of an
  entry whose \<open>box_2d\<close> is a quadruple of numbers \<open>[ymin, xmin, ymax, xmax]\<close> has
  exactly one evidence record, with the file identifier, the confidence of the finding,
  the source \<open>MODEL_VISION\<close> and the box
  \<open>{x: xmin, y: ymin, height: ymax - ymin, width: xmax - xmin}\<close>, where the differences
  are those of JavaScript: the differences of the two doubles, rounded as IEEE 754
  rounds. They are exactly \<open>ymax - ymin\<close> and \<open>xmax - xmin\<close> when the coordinates
  and their differences are integers below \<open>2 ^ 53\<close> in magnitude. The finding of an
  entry without \<open>box_2d\<close> (or with a falsy one) has no evidence. In particular the
  payload whose \<open>highlights\<close> are the object of the scenario yields 2 findings, and
  the box of the evidence of the second is \<open>{y: 10, x: 20, height: 20, width: 20}\<close>.
\<close>

theorem normalize_box_evidence:
  assumes "payload_ok data"
  shows "(\<exists>res.
        mapModelResponseToApp js e data fid = Inr res
      \<and> length (findings res) = 1 + length (highlights_of data)
      \<and> (\<forall>i<length (highlights_of data).
            (\<forall>ymin xmin ymax xmax.
                field (highlights_of data ! i) ''box_2d''
                  = JArr [JNum ymin, JNum xmin, JNum ymax, JNum xmax]
                \<longrightarrow> evidence (findings res ! Suc i) =
                      [\<lparr>fileId = fid,
                        ev_confidence = confidence (findings res ! Suc i),
                        source = ''MODEL_VISION'',
                        bbox = \<lparr>bbox_y = JNum ymin, bbox_x = JNum xmin,
                                 bbox_height = minus_number (to_double ymax) (to_double ymin),
                                 bbox_width = minus_number (to_double xmax) (to_double xmin)\<rparr>\<rparr>])
          \<and> (\<forall>ymin xmin ymax xmax.
                field (highlights_of data ! i) ''box_2d''
                  = JArr [JNum (of_int ymin), JNum (of_int xmin),
                          JNum (of_int ymax), JNum (of_int xmax)]
                \<and> list_all (\<lambda>z. nat \<bar>z\<bar> < 2 ^ 53)
                     [ymin, xmin, ymax, xmax, ymax - ymin, xmax - xmin]
                \<longrightarrow> map bbox (evidence (findings res ! Suc i)) =
                      [\<lparr>bbox_y = JNum (of_int ymin), bbox_x = JNum (of_int xmin),
                        bbox_height = Finite (of_int (ymax - ymin)),
                        bbox_width = Finite (of_int (xmax - xmin))\<rparr>])
          \<and> (\<not> truthy (field (highlights_of data ! i) ''box_2d'')
                \<longrightarrow> evidence (findings res ! Suc i) = [])))
    \<and> (\<exists>res.
        mapModelResponseToApp js e scenario_payload fid = Inr res
      \<and> length (findings res) = 2
      \<and> map bbox (evidence (findings res ! 1)) =
          [\<lparr>bbox_y = JNum 10, bbox_x = JNum 20,
            bbox_height = Finite 20, bbox_width = Finite 20\<rparr>])"
proof
  from mapModelResponseToApp_returns [OF assms] obtain res where
    r: "mapModelResponseToApp js e data fid = Inr res"
    by blast
  from mapModelResponseToApp_Inr [OF r] obtain ft hs where
    f: "findings res = ft # hs" and l: "length hs = length (highlights_of data)" and
    h: "\<And>i. i < length (highlights_of data) \<Longrightarrow>
          highlight js e data fid Finding i (highlights_of data ! i) = Inr (hs ! i)"
    by blast
  have quad: "evidence (findings res ! Suc i) =
            [\<lparr>fileId = fid,
              ev_confidence = confidence (findings res ! Suc i),
              source = ''MODEL_VISION'',
              bbox = \<lparr>bbox_y = JNum ymin, bbox_x = JNum xmin,
                       bbox_height = minus_number (to_double ymax) (to_double ymin),
                       bbox_width = minus_number (to_double xmax) (to_double xmin)\<rparr>\<rparr>]"
    if i: "i < length (highlights_of data)"
      and b: "field (highlights_of data ! i) ''box_2d''
                = JArr [JNum ymin, JNum xmin, JNum ymax, JNum xmax]"
    for i ymin xmin ymax xmax
  proof -
    note hf = highlight_fields [OF h [OF i]]
    from hf(3) evidence_of_quadruple [OF b, of js fid] hf(2) f show ?thesis by simp
  qed
  have ints: "map bbox (evidence (findings res ! Suc i)) =
                      [\<lparr>bbox_y = JNum (of_int ymin), bbox_x = JNum (of_int xmin),
                        bbox_height = Finite (of_int (ymax - ymin)),
                        bbox_width = Finite (of_int (xmax - xmin))\<rparr>]"
    if i: "i < length (highlights_of data)"
      and b: "field (highlights_of data ! i) ''box_2d''
                  = JArr [JNum (of_int ymin), JNum (of_int xmin),
                          JNum (of_int ymax), JNum (of_int xmax)]"
      and s: "list_all (\<lambda>z. nat \<bar>z\<bar> < 2 ^ 53)
                     [ymin, xmin, ymax, xmax, ymax - ymin, xmax - xmin]"
    for i and ymin xmin ymax xmax :: int
  proof -
    from s have bounds: "nat \<bar>ymin\<bar> < 2 ^ 53" "nat \<bar>xmin\<bar> < 2 ^ 53"
      "nat \<bar>ymax\<bar> < 2 ^ 53" "nat \<bar>xmax\<bar> < 2 ^ 53"
      "nat \<bar>ymax - ymin\<bar> < 2 ^ 53" "nat \<bar>xmax - xmin\<bar> < 2 ^ 53"
      by (simp_all only: list.pred_inject)
    note d = exact_difference [OF bounds(3) bounds(1) bounds(5)]
      exact_difference [OF bounds(4) bounds(2) bounds(6)]
    from quad [OF i b] show ?thesis by (simp only: d list.map Evidence.simps)
  qed
  have none: "evidence (findings res ! Suc i) = []"
    if i: "i < length (highlights_of data)"
      and b: "\<not> truthy (field (highlights_of data ! i) ''box_2d'')"
    for i
    using highlight_fields(3) [OF h [OF i]] evidence_of_no_box [OF b, of js fid] f by simp
  from r f l quad ints none show "\<exists>res.
        mapModelResponseToApp js e data fid = Inr res
      \<and> length (findings res) = 1 + length (highlights_of data)
      \<and> (\<forall>i<length (highlights_of data).
            (\<forall>ymin xmin ymax xmax.
                field (highlights_of data ! i) ''box_2d''
                  = JArr [JNum ymin, JNum xmin, JNum ymax, JNum xmax]
                \<longrightarrow> evidence (findings res ! Suc i) =
                      [\<lparr>fileId = fid,
                        ev_confidence = confidence (findings res ! Suc i),
                        source = ''MODEL_VISION'',
                        bbox = \<lparr>bbox_y = JNum ymin, bbox_x = JNum xmin,
                                 bbox_height = minus_number (to_double ymax) (to_double ymin),
                                 bbox_width = minus_number (to_double xmax) (to_double xmin)\<rparr>\<rparr>])
          \<and> (\<forall>ymin xmin ymax xmax.
                field (highlights_of data ! i) ''box_2d''
                  = JArr [JNum (of_int ymin), JNum (of_int xmin),
                          JNum (of_int ymax), JNum (of_int xmax)]
                \<and> list_all (\<lambda>z. nat \<bar>z\<bar> < 2 ^ 53)
                     [ymin, xmin, ymax, xmax, ymax - ymin, xmax - xmin]
                \<longrightarrow> map bbox (evidence (findings res ! Suc i)) =
                      [\<lparr>bbox_y = JNum (of_int ymin), bbox_x = JNum (of_int xmin),
                        bbox_height = Finite (of_int (ymax - ymin)),
                        bbox_width = Finite (of_int (xmax - xmin))\<rparr>])
          \<and> (\<not> truthy (field (highlights_of data ! i) ''box_2d'')
                \<longrightarrow> evidence (findings res ! Suc i) = []))"
    by (intro exI [of _ res] conjI allI impI) (simp_all del: of_int_diff)
next
  from mapModelResponseToApp_returns [OF payload_ok_scenario] obtain res where
    r: "mapModelResponseToApp js e scenario_payload fid = Inr res"
    by blast
  from mapModelResponseToApp_Inr [OF r] obtain ft hs where
    f: "findings res = ft # hs" and l: "length hs = 1" and
    h: "highlight js e scenario_payload fid Finding 0 nodule = Inr (hs ! 0)"
    by (auto simp: highlights_of_scenario_payload)
  have b: "field nodule ''box_2d'' = JArr [JNum 10, JNum 20, JNum 30, JNum 40]"
    by (simp add: nodule_def field_def)
  from highlight_fields(3) [OF h] evidence_of_quadruple [OF b, of js fid]
  have "evidence (hs ! 0) =
          [\<lparr>fileId = fid,
            ev_confidence = js_or (field nodule ''confidence'') (JNum 0.8),
            source = ''MODEL_VISION'',
            bbox = \<lparr>bbox_y = JNum 10, bbox_x = JNum 20,
                     bbox_height = minus_number (to_double 30) (to_double 10),
                     bbox_width = minus_number (to_double 40) (to_double 20)\<rparr>\<rparr>]"
    by simp
  with f have "map bbox (evidence (findings res ! 1)) =
          [\<lparr>bbox_y = JNum 10, bbox_x = JNum 20,
            bbox_height = Finite 20, bbox_width = Finite 20\<rparr>]"
    by (simp add: scenario_differences)
  with r f l show "\<exists>res.
        mapModelResponseToApp js e scenario_payload fid = Inr res
      \<and> length (findings res) = 2
      \<and> map bbox (evidence (findings res ! 1)) =
          [\<lparr>bbox_y = JNum 10, bbox_x = JNum 20,
            bbox_height = Finite 20, bbox_width = Finite 20\<rparr>]"
    by (intro exI [of _ res]) simp
qed

theorem normalize_box_evidence_witness:
  "payload_ok scenario_payload
   \<and> (\<exists>res. mapModelResponseToApp example_builtins example_effects scenario_payload ''file-1''
               = Inr res
            \<and> length (findings res) = 2
            \<and> map bbox (evidence (findings res ! 1)) =
                [\<lparr>bbox_y = JNum 10, bbox_x = JNum 20,
                  bbox_height = Finite 20, bbox_width = Finite 20\<rparr>])"
proof -
  have ok: "payload_ok scenario_payload" by (rule payload_ok_scenario)
  from normalize_box_evidence [OF ok, of example_builtins example_effects "''file-1''"] ok
  show ?thesis by blast
qed

lemma simulateAnalysis_returns: "\<exists>sim. simulateAnalysis js e rfile lang = Inr sim"
  using mapModelResponseToApp_returns [OF payload_ok_mockData] by (simp add: simulateAnalysis_def)

lemma payload_ok_zero_region: "payload_ok zero_region_payload"
  by (simp add: payload_ok_def zero_region_payload_def
      regions_of_interest_def artifacts_def opt_field_def field_def items_ok_def item_ok_def
      box_ok_def file_type_ok_def)

text \<open>
  Claim C10, as stated, assigns 0.8 to every entry that declares a confidence of 0 and
  0.9 to the file classification of every payload that declares an overall confidence
  of 0. The mapping validates nothing: on a payload that declares both and whose second
  region is \<open>null\<close> it raises TypeError and assigns nothing.
\<close>

theorem normalize_zero_confidence_then_null_raises:
  "field (highlights_of zero_then_null_payload ! 0) ''confidence'' = JNum 0
   \<and> field zero_then_null_payload ''confidence_overall'' = JNum 0
   \<and> mapModelResponseToApp example_builtins example_effects zero_then_null_payload ''file-1''
     = Inl TypeError"
proof -
  have "\<not> payload_ok zero_then_null_payload"
    by (simp add: payload_ok_def zero_then_null_payload_def regions_of_interest_def
        opt_field_def field_def items_ok_def item_ok_def)
  then have "mapModelResponseToApp example_builtins example_effects zero_then_null_payload
      ''file-1'' = Inl TypeError"
    by (simp add: mapModelResponseToApp_Inl)
  moreover have "field (highlights_of zero_then_null_payload ! 0) ''confidence'' = JNum 0"
    "field zero_then_null_payload ''confidence_overall'' = JNum 0"
    by (simp_all add: highlights_of_def zero_then_null_payload_def regions_of_interest_def
        artifacts_def opt_field_def field_def entries_def)
  ultimately show ?thesis by simp
qed

text \<open>
  Claim C10, amended: on every payload on which the mapping returns, an explicit
  confidence of exactly 0 is treated as absent. The finding of a region or artifact
  entry whose \<open>confidence\<close> is 0 has confidence 0.8, and when the entry has a box the
  finding has one evidence record, whose confidence is 0.8 too; a payload whose
  \<open>confidence_overall\<close> is 0 gets a file-classification finding with confidence 0.9.
  In particular the simulation, whose payload declares \<open>confidence_overall\<close> 0.0,
  returns a file-classification finding with confidence 0.9 rather than 0.
\<close>

theorem normalize_zero_confidence_as_absent:
  assumes "payload_ok data"
  shows "(\<exists>res.
        mapModelResponseToApp js e data fid = Inr res
      \<and> (\<forall>i<length (highlights_of data).
            field (highlights_of data ! i) ''confidence'' = JNum 0
            \<longrightarrow> confidence (findings res ! Suc i) = JNum 0.8
                \<and> (truthy (field (highlights_of data ! i) ''box_2d'')
                     \<longrightarrow> (\<exists>b. evidence (findings res ! Suc i) =
                               [\<lparr>fileId = fid, ev_confidence = JNum 0.8,
                                 source = ''MODEL_VISION'', bbox = b\<rparr>])))
      \<and> (field data ''confidence_overall'' = JNum 0
            \<longrightarrow> confidence (findings res ! 0) = JNum 0.9))
    \<and> (\<exists>sim.
        simulateAnalysis js e rfile lang = Inr sim
      \<and> field mockData ''confidence_overall'' = JNum 0
      \<and> confidence (findings sim ! 0) = JNum 0.9)"
proof
  from mapModelResponseToApp_returns [OF assms] obtain res where
    r: "mapModelResponseToApp js e data fid = Inr res"
    by blast
  from mapModelResponseToApp_Inr [OF r] obtain ft hs where
    f: "findings res = ft # hs" and c: "classification js e data (length hs) = Inr ft" and
    h: "\<And>i. i < length (highlights_of data) \<Longrightarrow>
          highlight js e data fid Finding i (highlights_of data ! i) = Inr (hs ! i)"
    by blast
  have conf: "confidence (findings res ! Suc i) = JNum 0.8"
    if i: "i < length (highlights_of data)"
      and z: "field (highlights_of data ! i) ''confidence'' = JNum 0"
    for i
    using highlight_fields(2) [OF h [OF i]] z f by (simp add: js_or_def)
  have ev: "\<exists>b. evidence (findings res ! Suc i) =
                [\<lparr>fileId = fid, ev_confidence = JNum 0.8,
                  source = ''MODEL_VISION'', bbox = b\<rparr>]"
    if i: "i < length (highlights_of data)"
      and z: "field (highlights_of data ! i) ''confidence'' = JNum 0"
      and b: "truthy (field (highlights_of data ! i) ''box_2d'')"
    for i
    using evidence_of_truthy_box [OF b highlight_fields(3) [OF h [OF i]]] z f
    by (simp add: js_or_def)
  have overall: "field data ''confidence_overall'' = JNum 0
            \<longrightarrow> confidence (findings res ! 0) = JNum 0.9"
    using classification_fields(2) [OF c] f by (simp add: js_or_def)
  from r conf ev overall show "\<exists>res.
        mapModelResponseToApp js e data fid = Inr res
      \<and> (\<forall>i<length (highlights_of data).
            field (highlights_of data ! i) ''confidence'' = JNum 0
            \<longrightarrow> confidence (findings res ! Suc i) = JNum 0.8
                \<and> (truthy (field (highlights_of data ! i) ''box_2d'')
                     \<longrightarrow> (\<exists>b. evidence (findings res ! Suc i) =
                               [\<lparr>fileId = fid, ev_confidence = JNum 0.8,
                                 source = ''MODEL_VISION'', bbox = b\<rparr>])))
      \<and> (field data ''confidence_overall'' = JNum 0
            \<longrightarrow> confidence (findings res ! 0) = JNum 0.9)"
    by (intro exI [of _ res] conjI allI impI) simp_all
next
  from simulateAnalysis_returns obtain sim where
    s: "simulateAnalysis js e rfile lang = Inr sim"
    by blast
  then have r: "mapModelResponseToApp js e mockData (rf_id rfile) = Inr sim"
    by (simp add: simulateAnalysis_def)
  from mapModelResponseToApp_Inr [OF r] obtain ft hs where
    f: "findings sim = ft # hs" and c: "classification js e mockData (length hs) = Inr ft"
    by blast
  have z: "field mockData ''confidence_overall'' = JNum 0"
    by (simp add: mockData_def field_def)
  from classification_fields(2) [OF c] z f have "confidence (findings sim ! 0) = JNum 0.9"
    by (simp add: js_or_def)
  with s z show "\<exists>sim.
        simulateAnalysis js e rfile lang = Inr sim
      \<and> field mockData ''confidence_overall'' = JNum 0
      \<and> confidence (findings sim ! 0) = JNum 0.9"
    by blast
qed

theorem normalize_zero_confidence_as_absent_witness:
  "payload_ok zero_region_payload
   \<and> (\<exists>res. mapModelResponseToApp example_builtins example_effects zero_region_payload ''file-1''
               = Inr res
            \<and> confidence (findings res ! 1) = JNum 0.8
            \<and> map ev_confidence (evidence (findings res ! 1)) = [JNum 0.8]
            \<and> confidence (findings res ! 0) = JNum 0.9)"
proof -
  have ok: "payload_ok zero_region_payload" by (rule payload_ok_zero_region)
  have hl: "0 < length (highlights_of zero_region_payload)"
    "field (highlights_of zero_region_payload ! 0) ''confidence'' = JNum 0"
    "truthy (field (highlights_of zero_region_payload ! 0) ''box_2d'')"
    "field zero_region_payload ''confidence_overall'' = JNum 0"
    by (simp_all add: highlights_of_def zero_region_payload_def regions_of_interest_def
        artifacts_def opt_field_def field_def entries_def)
  from normalize_zero_confidence_as_absent
         [OF ok, of example_builtins example_effects "''file-1''" example_file "''English''"]
  obtain res where
    r: "mapModelResponseToApp example_builtins example_effects zero_region_payload ''file-1''
       = Inr res" and
    a: "\<forall>i<length (highlights_of zero_region_payload).
        field (highlights_of zero_region_payload ! i) ''confidence'' = JNum 0
        \<longrightarrow> confidence (findings res ! Suc i) = JNum 0.8
            \<and> (truthy (field (highlights_of zero_region_payload ! i) ''box_2d'')
                 \<longrightarrow> (\<exists>b. evidence (findings res ! Suc i) =
                           [\<lparr>fileId = ''file-1'', ev_confidence = JNum 0.8,
                             source = ''MODEL_VISION'', bbox = b\<rparr>]))" and
    o: "field zero_region_payload ''confidence_overall'' = JNum 0
        \<longrightarrow> confidence (findings res ! 0) = JNum 0.9"
    by blast
  from a hl have "confidence (findings res ! 1) = JNum 0.8"
    and "\<exists>b. evidence (findings res ! 1) =
               [\<lparr>fileId = ''file-1'', ev_confidence = JNum 0.8,
                 source = ''MODEL_VISION'', bbox = b\<rparr>]"
    by auto
  then have "confidence (findings res ! 1) = JNum 0.8"
    and "map ev_confidence (evidence (findings res ! 1)) = [JNum 0.8]"
    by auto
  with r o hl(4) ok show ?thesis by (intro conjI exI [of _ res]) auto
qed

section \<open>The simulation\<close>

lemma mockData_summaries:
  "field mockData ''summary_patient'' = JStr fallbackMsg"
  "field mockData ''summary_student'' = JStr instructionMsg"
  "field mockData ''summary_doctor'' = JStr missingKeyMsg"
  "field mockData ''summary_patient_en'' = JStr fallbackMsg"
  "field mockData ''summary_student_en'' = JStr instructionMsg"
  "field mockData ''summary_doctor_en'' = JStr missingKeyMsg"
  by (simp_all add: mockData_def field_def)

lemma messages_nonempty: "fallbackMsg \<noteq> []" "instructionMsg \<noteq> []" "missingKeyMsg \<noteq> []"
  by (simp_all add: fallbackMsg_def instructionMsg_def missingKeyMsg_def)

lemma fallbackMsg_notice: "includes_str fallbackMsg ''DEMO MODE''"
  by (simp add: fallbackMsg_def)

lemma fallbackMsg_no_credential: "\<not> mentions_credential fallbackMsg"
  by (simp add: mentions_credential_def fallbackMsg_def)

lemma instructionMsg_credential: "mentions_credential instructionMsg"
  by (simp add: mentions_credential_def instructionMsg_def)

lemma instructionMsg_no_mode: "\<not> states_demo_mode instructionMsg"
  by (simp add: states_demo_mode_def instructionMsg_def)

lemma missingKeyMsg_mode: "states_demo_mode missingKeyMsg"
  by (simp add: states_demo_mode_def missingKeyMsg_def)


lemma simulateAnalysis_summaries:
  "\<exists>res. simulateAnalysis js e rfile lang = Inr res
      \<and> summaryPatient res = JStr fallbackMsg \<and> summaryPatientEn res = JStr fallbackMsg
      \<and> summaryStudent res = JStr instructionMsg \<and> summaryStudentEn res = JStr instructionMsg
      \<and> summaryDoctor res = JStr missingKeyMsg \<and> summaryDoctorEn res = JStr missingKeyMsg"
proof -
  from simulateAnalysis_returns obtain res where
    s: "simulateAnalysis js e rfile lang = Inr res"
    by blast
  then have r: "mapModelResponseToApp js e mockData (rf_id rfile) = Inr res"
    by (simp add: simulateAnalysis_def)
  note m = mapModelResponseToApp_summaries [OF r]
  have "summaryPatient res = JStr fallbackMsg" "summaryPatientEn res = JStr fallbackMsg"
    "summaryStudent res = JStr instructionMsg" "summaryStudentEn res = JStr instructionMsg"
    "summaryDoctor res = JStr missingKeyMsg" "summaryDoctorEn res = JStr missingKeyMsg"
    by (simp_all add: m mockData_summaries js_or_def messages_nonempty)
  with s show ?thesis by blast
qed

lemma no_credentials_key: "\<not> truthy (getApiKey js no_credentials)"
  by (simp add: getApiKey_def no_credentials_def)

text \<open>
  Claim C3, as stated, has every summary field of the simulated result state the
  demonstration mode and explain how to supply a credential. The simulation puts the
  notice in the patient summary, which does not mention the key, and the instruction
  in the student summary, which does not name the mode.
\<close>

theorem analyze_summaries_split_the_notice:
  "map_sum id summaryPatient
     (analyzeMedicalImage example_builtins example_effects no_credentials
        (Inl (Error ''unreachable'')) example_file ''Tamil'')
     = Inr (JStr fallbackMsg)
   \<and> \<not> mentions_credential fallbackMsg
   \<and> map_sum id summaryStudent
       (analyzeMedicalImage example_builtins example_effects no_credentials
          (Inl (Error ''unreachable'')) example_file ''Tamil'')
     = Inr (JStr instructionMsg)
   \<and> \<not> states_demo_mode instructionMsg"
  using simulateAnalysis_summaries [of example_builtins example_effects example_file "''Tamil''"]
    fallbackMsg_no_credential instructionMsg_no_mode no_credentials_key [of example_builtins]
  by (auto simp: analyzeMedicalImage_def)

text \<open>
  Claim C3, amended: for every file and language, when no credential is resolvable,
  \<open>analyzeMedicalImage\<close> resolves with the simulated result, in which the patient
  summary and its English variant are the demonstration-mode notice, the student
  summary and its English variant are the instruction on how to supply the key, and the
  doctor summary and its English variant state that the application runs in Simulation
  Mode because no key was found; in particular the patient summary contains the notice
  DEMO MODE.
\<close>

theorem analyze_without_credential:
  assumes "\<not> truthy (getApiKey js c)"
  shows "\<exists>res.
      analyzeMedicalImage js e c remote rfile lang = Inr res
    \<and> summaryPatient res = JStr fallbackMsg \<and> summaryPatientEn res = JStr fallbackMsg
    \<and> summaryStudent res = JStr instructionMsg \<and> summaryStudentEn res = JStr instructionMsg
    \<and> summaryDoctor res = JStr missingKeyMsg \<and> summaryDoctorEn res = JStr missingKeyMsg
    \<and> includes_str fallbackMsg ''DEMO MODE''
    \<and> states_demo_mode fallbackMsg
    \<and> mentions_credential instructionMsg
    \<and> states_demo_mode missingKeyMsg"
  using assms simulateAnalysis_summaries [of js e rfile lang] fallbackMsg_notice
    instructionMsg_credential missingKeyMsg_mode
  by (auto simp: analyzeMedicalImage_def states_demo_mode_def)

theorem analyze_without_credential_witness:
  "\<not> truthy (getApiKey example_builtins no_credentials)
   \<and> (\<exists>res. analyzeMedicalImage example_builtins example_effects no_credentials
              (Inl (Error ''unreachable'')) example_file ''Tamil'' = Inr res
            \<and> summaryPatient res = JStr fallbackMsg
            \<and> includes_str fallbackMsg ''DEMO MODE'')"
proof -
  have k: "\<not> truthy (getApiKey example_builtins no_credentials)" by (rule no_credentials_key)
  from analyze_without_credential
         [OF k, of example_effects "Inl (Error ''unreachable'')" example_file "''Tamil''"] k
  show ?thesis by blast
qed

section \<open>Feedback and approval\<close>

lemma updatedFindings_no_match:
  "findingId \<notin> finding_id ` set fs \<Longrightarrow> updatedFindings clock findingId acc corr k fs = fs"
  by (induction fs arbitrary: k) auto

lemma length_updatedFindings [simp]:
  "length (updatedFindings clock findingId acc corr k fs) = length fs"
  by (induction fs arbitrary: k) auto

lemma updatedFindings_overwrite:
  "updatedFindings clock2 findingId acc2 corr2 k2
     (updatedFindings clock1 findingId acc1 corr1 k1 fs)
   = updatedFindings clock2 findingId acc2 corr2 k2 fs"
  by (induction fs arbitrary: k1 k2) auto

lemma updatedFindings_nth:
  "i < length fs \<Longrightarrow>
     finding_id (updatedFindings clock findingId acc corr k fs ! i) = finding_id (fs ! i)
   \<and> (finding_id (fs ! i) = findingId \<longrightarrow>
        (\<exists>n. feedback (updatedFindings clock findingId acc corr k fs ! i)
              = Some \<lparr>isAccurate = acc, correction = corr, timestamp = clock n\<rparr>))
   \<and> (finding_id (fs ! i) \<noteq> findingId \<longrightarrow>
        updatedFindings clock findingId acc corr k fs ! i = fs ! i)"
proof (induction fs arbitrary: i k)
  case Nil
  then show ?case by simp
next
  case (Cons f fs)
  show ?case
  proof (cases i)
    case 0
    then show ?thesis by auto
  next
    case (Suc j)
    with Cons.prems have "j < length fs" by simp
    from Cons.IH [OF this] Suc show ?thesis by auto
  qed
qed

lemma report_id_apply_patch [simp]: "report_id (apply_patch r p) = report_id r"
  by (simp add: apply_patch_def)

lemma find_updateReport:
  "find (\<lambda>r. report_id r = rid) (updateReport rs rid' p)
     = map_option (\<lambda>r. if report_id r = rid' then apply_patch r p else r)
         (find (\<lambda>r. report_id r = rid) rs)"
  by (induction rs) (auto simp: updateReport_def)

lemma current_report_id: "current_report st rid = Some r \<Longrightarrow> report_id r = rid"
  by (auto simp: current_report_def find_Some_iff)

lemma apply_patch_same_findings:
  "apply_patch r \<lparr>patch_status = None, patch_findings = Some (findings r)\<rparr> = r"
  by (simp add: apply_patch_def)

lemma current_report_submitFeedback:
  assumes "current_report st rid = Some r"
    and "submitFeedback clock st r findingId acc corr = Inr st'"
  shows "current_report st' rid
           = Some (r\<lparr>findings := updatedFindings clock findingId acc corr 0 (findings r)\<rparr>)"
  using assms current_report_id [OF assms(1)]
  by (auto simp: submitFeedback_def current_report_def find_updateReport apply_patch_def)

lemma current_report_handleApprove:
  assumes "current_report st rid = Some r"
    and "handleApprove st r = Inr st'"
  shows "current_report st' rid = Some (r\<lparr>status := APPROVED\<rparr>)"
  using assms current_report_id [OF assms(1)]
  by (auto simp: handleApprove_def current_report_def find_updateReport apply_patch_def)

lemma current_report_example:
  "current_report example_state (report_id example_report) = Some example_report"
  by (simp add: current_report_def example_state_def)

lemma example_findings:
  "findings example_report =
     [example_finding ''ft-1700000000001'' Impression ''File Classification: XRAY'',
      example_finding ''find-1700000000000-4fzyo'' Finding ''Nodule: 3mm opacity'']"
  by (simp add: example_report_def newReport_def example_analysis_def)

lemma missing_id_not_in_example: "''missing-id'' \<notin> finding_id ` set (findings example_report)"
  by (simp add: example_findings example_finding_def)

lemma nodule_id_in_example:
  "''find-1700000000000-4fzyo'' \<in> finding_id ` set (findings example_report)"
  by (simp add: example_findings example_finding_def)

lemma length_updateReport [simp]: "length (updateReport rs rid p) = length rs"
  by (simp add: updateReport_def)

lemma updateReport_nth:
  "i < length rs \<Longrightarrow>
     updateReport rs rid p ! i = (if report_id (rs ! i) = rid then apply_patch (rs ! i) p else rs ! i)"
  by (simp add: updateReport_def)

lemma status_apply_patch_findings [simp]:
  "status (apply_patch r \<lparr>patch_status = None, patch_findings = fs\<rparr>) = status r"
  by (simp add: apply_patch_def)

lemma status_apply_patch_approved [simp]:
  "status (apply_patch r \<lparr>patch_status = Some s, patch_findings = fs\<rparr>) = s"
  by (simp add: apply_patch_def)

lemma core_step_length [simp]: "length (reports (core_step st op)) = length (reports st)"
  by (cases op) (auto simp: handleApprove_def submitFeedback_def split: option.splits)

lemma core_step_nth:
  assumes "i < length (reports st)"
  shows "report_id (reports (core_step st op) ! i) = report_id (reports st ! i)
       \<and> (status (reports (core_step st op) ! i) = status (reports st ! i)
          \<or> status (reports (core_step st op) ! i) = APPROVED)"
  using assms
  by (cases op) (auto simp: handleApprove_def submitFeedback_def updateReport_nth split: option.splits)

lemma core_step_feedback_status:
  "map status (reports (core_step st (RecordFeedback rid clock findingId acc corr)))
     = map status (reports st)"
  by (auto simp: submitFeedback_def updateReport_def split: option.splits)

lemma core_run_reports:
  "length (reports (core_run st ops)) = length (reports st)
   \<and> (\<forall>i<length (reports st).
         report_id (reports (core_run st ops) ! i) = report_id (reports st ! i)
       \<and> (status (reports st ! i) = APPROVED
            \<longrightarrow> status (reports (core_run st ops) ! i) = APPROVED))"
proof (induction ops arbitrary: st)
  case Nil
  then show ?case by (simp add: core_run_def)
next
  case (Cons op ops)
  have run: "core_run st (op # ops) = core_run (core_step st op) ops"
    by (simp add: core_run_def)
  note IH = Cons.IH [of "core_step st op"]
  show ?case
  proof (intro conjI allI impI)
    show "length (reports (core_run st (op # ops))) = length (reports st)"
      using IH by (simp add: run)
  next
    fix i assume i: "i < length (reports st)"
    then show "report_id (reports (core_run st (op # ops)) ! i) = report_id (reports st ! i)"
      using IH core_step_nth [OF i, of op] by (simp add: run)
  next
    fix i assume i: "i < length (reports st)" and a: "status (reports st ! i) = APPROVED"
    from core_step_nth [OF i, of op] a
    have "status (reports (core_step st op) ! i) = APPROVED" by auto
    with IH i show "status (reports (core_run st (op # ops)) ! i) = APPROVED"
      by (simp add: run)
  qed
qed

lemma reports_example_state: "reports example_state = [example_report]"
  by (simp add: example_state_def)

lemma approved_state_reports:
  "reports approved_state = [example_report\<lparr>status := APPROVED\<rparr>]"
  by (simp add: approved_state_def current_report_example handleApprove_def updateReport_def
      apply_patch_def reports_example_state)

text \<open>
  Claim C2, as stated, makes \<open>submitFeedback\<close> fail with FindingNotFound on an
  identifier that matches no finding. The handler has no such check: on the identifier
  \<open>missing-id\<close> it returns normally, and the state after it is the state before it.
\<close>

theorem submitFeedback_missing_id_returns:
  "submitFeedback example_clock example_state example_report ''missing-id'' True None
     = Inr example_state"
proof -
  have "updateReport [example_report] (report_id example_report)
          \<lparr>patch_status = None, patch_findings = Some (findings example_report)\<rparr>
        = [example_report]"
    by (simp add: updateReport_def apply_patch_same_findings)
  then show ?thesis
    by (simp add: submitFeedback_def updatedFindings_no_match [OF missing_id_not_in_example]
        example_state_def)
qed

text \<open>
  Claim C2, amended: for every report shown by the viewer and every identifier that
  matches none of its findings, \<open>submitFeedback\<close> does not fail with FindingNotFound:
  it returns normally. The list it hands to \<open>updateReport\<close> is the report's own list of
  findings, and the state it returns is the state before it with the correction input
  closed and its text emptied, in which every stored report with the identifier of the
  report shown has that list. The report shown is unchanged; where the identifiers of
  the stored reports are distinct the store is unchanged, so that no finding of any
  report is modified.
\<close>

theorem submitFeedback_unknown_finding:
  assumes "current_report st rid = Some report"
    and "findingId \<notin> finding_id ` set (findings report)"
  shows "submitFeedback clock st report findingId acc corr
           = Inr (st\<lparr>reports :=
                        map (\<lambda>r. if report_id r = rid then r\<lparr>findings := findings report\<rparr> else r)
                          (reports st),
                      showCorrectionInput := None,
                      correctionText := []\<rparr>)
       \<and> updatedFindings clock findingId acc corr 0 (findings report) = findings report
       \<and> (\<forall>st'. submitFeedback clock st report findingId acc corr = Inr st'
              \<longrightarrow> current_report st' rid = Some report)
       \<and> (distinct (map report_id (reports st))
            \<longrightarrow> submitFeedback clock st report findingId acc corr
                  = Inr (st\<lparr>showCorrectionInput := None, correctionText := []\<rparr>))"
proof (intro conjI allI impI)
  have u: "updatedFindings clock findingId acc corr 0 (findings report) = findings report"
    using assms(2) by (rule updatedFindings_no_match)
  then show "updatedFindings clock findingId acc corr 0 (findings report) = findings report" .
  have i: "report_id report = rid" using assms(1) by (rule current_report_id)
  have p: "apply_patch r \<lparr>patch_status = None, patch_findings = Some (findings report)\<rparr>
             = r\<lparr>findings := findings report\<rparr>" for r
    by (simp add: apply_patch_def)
  show s: "submitFeedback clock st report findingId acc corr
           = Inr (st\<lparr>reports :=
                        map (\<lambda>r. if report_id r = rid then r\<lparr>findings := findings report\<rparr> else r)
                          (reports st),
                      showCorrectionInput := None,
                      correctionText := []\<rparr>)"
    by (simp add: submitFeedback_def u i updateReport_def p)
  show "current_report st' rid = Some report"
    if "submitFeedback clock st report findingId acc corr = Inr st'" for st'
    using current_report_submitFeedback [OF assms(1) that] u by simp
  show "submitFeedback clock st report findingId acc corr
          = Inr (st\<lparr>showCorrectionInput := None, correctionText := []\<rparr>)"
    if d: "distinct (map report_id (reports st))"
  proof -
    have "(if report_id r = rid then r\<lparr>findings := findings report\<rparr> else r) = r"
      if r: "r \<in> set (reports st)" for r
    proof (cases "report_id r = rid")
      case True
      from assms(1) have "report \<in> set (reports st)"
        by (auto simp: current_report_def find_Some_iff)
      with d r True i have "r = report"
        by (auto simp: distinct_map dest: inj_onD)
      with True show ?thesis by simp
    next
      case False
      then show ?thesis by simp
    qed
    then have "map (\<lambda>r. if report_id r = rid then r\<lparr>findings := findings report\<rparr> else r)
                 (reports st) = reports st"
      by (rule map_idI)
    with s show ?thesis by simp
  qed
qed

lemma distinct_example_state: "distinct (map report_id (reports example_state))"
  by (simp add: reports_example_state)

theorem submitFeedback_unknown_finding_witness:
  "current_report example_state (report_id example_report) = Some example_report
   \<and> ''missing-id'' \<notin> finding_id ` set (findings example_report)
   \<and> distinct (map report_id (reports example_state))
   \<and> submitFeedback example_clock example_state example_report ''missing-id'' True None
       = Inr (example_state\<lparr>showCorrectionInput := None, correctionText := []\<rparr>)
   \<and> updatedFindings example_clock ''missing-id'' True None 0 (findings example_report)
       = findings example_report"
proof -
  note c = current_report_example and m = missing_id_not_in_example
    and d = distinct_example_state
  from submitFeedback_unknown_finding [OF c m, of example_clock True None] c m d
  show ?thesis by blast
qed

text \<open>
  Claim C8: recording feedback overwrites. For every report shown by the viewer and
  every identifier of one of its findings, after two successive submissions for that
  identifier the report's findings are what the second submission alone would have
  produced: each finding with the identifier holds one feedback record, with the
  accuracy flag, the correction and a time stamp of the second submission, and every
  other finding is as it was.
\<close>

theorem submitFeedback_last_write_wins:
  assumes "current_report st rid = Some r"
    and "findingId \<in> finding_id ` set (findings r)"
  shows "\<exists>st1 r1 st2 r2.
      submitFeedback clock1 st r findingId acc1 corr1 = Inr st1
    \<and> current_report st1 rid = Some r1
    \<and> submitFeedback clock2 st1 r1 findingId acc2 corr2 = Inr st2
    \<and> current_report st2 rid = Some r2
    \<and> findings r2 = updatedFindings clock2 findingId acc2 corr2 0 (findings r)
    \<and> length (findings r2) = length (findings r)
    \<and> (\<forall>i<length (findings r).
          finding_id (findings r2 ! i) = finding_id (findings r ! i)
        \<and> (finding_id (findings r ! i) = findingId \<longrightarrow>
             (\<exists>n. feedback (findings r2 ! i)
                   = Some \<lparr>isAccurate = acc2, correction = corr2, timestamp = clock2 n\<rparr>))
        \<and> (finding_id (findings r ! i) \<noteq> findingId \<longrightarrow> findings r2 ! i = findings r ! i))"
proof -
  obtain st1 where s1: "submitFeedback clock1 st r findingId acc1 corr1 = Inr st1"
    by (simp add: submitFeedback_def)
  let ?r1 = "r\<lparr>findings := updatedFindings clock1 findingId acc1 corr1 0 (findings r)\<rparr>"
  from current_report_submitFeedback [OF assms(1) s1]
  have c1: "current_report st1 rid = Some ?r1" .
  obtain st2 where s2: "submitFeedback clock2 st1 ?r1 findingId acc2 corr2 = Inr st2"
    by (simp add: submitFeedback_def)
  let ?r2 = "?r1\<lparr>findings := updatedFindings clock2 findingId acc2 corr2 0 (findings ?r1)\<rparr>"
  from current_report_submitFeedback [OF c1 s2]
  have c2: "current_report st2 rid = Some ?r2" .
  have f: "findings ?r2 = updatedFindings clock2 findingId acc2 corr2 0 (findings r)"
    by (simp add: updatedFindings_overwrite)
  have "\<forall>i<length (findings r).
          finding_id (findings ?r2 ! i) = finding_id (findings r ! i)
        \<and> (finding_id (findings r ! i) = findingId \<longrightarrow>
             (\<exists>n. feedback (findings ?r2 ! i)
                   = Some \<lparr>isAccurate = acc2, correction = corr2, timestamp = clock2 n\<rparr>))
        \<and> (finding_id (findings r ! i) \<noteq> findingId \<longrightarrow> findings ?r2 ! i = findings r ! i)"
    unfolding f using updatedFindings_nth [of _ "findings r" clock2 findingId acc2 corr2 0]
    by blast
  moreover have "length (findings ?r2) = length (findings r)" unfolding f by simp
  ultimately show ?thesis using s1 c1 s2 c2 f by blast
qed

theorem submitFeedback_last_write_wins_witness:
  "current_report example_state (report_id example_report) = Some example_report
   \<and> ''find-1700000000000-4fzyo'' \<in> finding_id ` set (findings example_report)
   \<and> (\<exists>st1 r1 st2 r2.
        submitFeedback example_clock example_state example_report ''find-1700000000000-4fzyo''
          False (Some ''It is a vessel'') = Inr st1
      \<and> current_report st1 (report_id example_report) = Some r1
      \<and> submitFeedback later_clock st1 r1 ''find-1700000000000-4fzyo'' True None = Inr st2
      \<and> current_report st2 (report_id example_report) = Some r2
      \<and> map feedback (findings r2) =
          [None, Some \<lparr>isAccurate = True, correction = None, timestamp = later_clock 0\<rparr>])"
proof -
  note c = current_report_example and m = nodule_id_in_example
  from submitFeedback_last_write_wins
         [OF c m, of example_clock False "Some ''It is a vessel''" later_clock True None]
  obtain st1 r1 st2 r2 where
    s: "submitFeedback example_clock example_state example_report ''find-1700000000000-4fzyo''
          False (Some ''It is a vessel'') = Inr st1"
       "current_report st1 (report_id example_report) = Some r1"
       "submitFeedback later_clock st1 r1 ''find-1700000000000-4fzyo'' True None = Inr st2"
       "current_report st2 (report_id example_report) = Some r2" and
    f: "findings r2 = updatedFindings later_clock ''find-1700000000000-4fzyo'' True None 0
                     (findings example_report)"
    by blast
  from f have fb: "map feedback (findings r2) =
          [None, Some \<lparr>isAccurate = True, correction = None, timestamp = later_clock 0\<rparr>]"
    by (simp add: example_findings example_finding_def)
  show ?thesis
  proof (intro conjI)
    show "current_report example_state (report_id example_report) = Some example_report"
      by (rule c)
    show "''find-1700000000000-4fzyo'' \<in> finding_id ` set (findings example_report)"
      by (rule m)
    show "\<exists>st1 r1 st2 r2.
        submitFeedback example_clock example_state example_report ''find-1700000000000-4fzyo''
          False (Some ''It is a vessel'') = Inr st1
      \<and> current_report st1 (report_id example_report) = Some r1
      \<and> submitFeedback later_clock st1 r1 ''find-1700000000000-4fzyo'' True None = Inr st2
      \<and> current_report st2 (report_id example_report) = Some r2
      \<and> map feedback (findings r2) =
          [None, Some \<lparr>isAccurate = True, correction = None, timestamp = later_clock 0\<rparr>]"
      using s fb
      by (intro exI [of _ st1] exI [of _ r1] exI [of _ st2] exI [of _ r2] conjI)
  qed
qed

text \<open>
  Claim C9: the lifecycle of a report goes one way. A report is built with the status
  \<open>REVIEW_REQUIRED\<close>; \<open>handleApprove\<close> sets the status of the report shown to
  \<open>APPROVED\<close>; recording feedback changes no status; and after any sequence of
  approvals and feedback the store has the same reports in the same places, each report
  whose status was \<open>APPROVED\<close> still \<open>APPROVED\<close>.
\<close>

theorem report_lifecycle_one_directional:
  "status (newReport now stamp patient reportFile selectedLanguage analysis) = REVIEW_REQUIRED
   \<and> (current_report st rid = Some r \<longrightarrow>
        (\<exists>st' r'. handleApprove st r = Inr st'
                 \<and> current_report st' rid = Some r' \<and> status r' = APPROVED))
   \<and> map status (reports (core_step st (RecordFeedback rid clock findingId acc corr)))
       = map status (reports st)
   \<and> length (reports (core_run st ops)) = length (reports st)
   \<and> (\<forall>i<length (reports st).
         report_id (reports (core_run st ops) ! i) = report_id (reports st ! i)
       \<and> (status (reports st ! i) = APPROVED
            \<longrightarrow> status (reports (core_run st ops) ! i) = APPROVED))"
proof (intro conjI)
  show "status (newReport now stamp patient reportFile selectedLanguage analysis)
          = REVIEW_REQUIRED"
    by (simp add: newReport_def)
  show "current_report st rid = Some r \<longrightarrow>
        (\<exists>st' r'. handleApprove st r = Inr st'
                 \<and> current_report st' rid = Some r' \<and> status r' = APPROVED)"
  proof
    assume c: "current_report st rid = Some r"
    obtain st' where h: "handleApprove st r = Inr st'" by (simp add: handleApprove_def)
    from current_report_handleApprove [OF c h] h
    show "\<exists>st' r'. handleApprove st r = Inr st'
                 \<and> current_report st' rid = Some r' \<and> status r' = APPROVED"
      by (intro exI [of _ st'] exI [of _ "r\<lparr>status := APPROVED\<rparr>"]) simp
  qed
  show "map status (reports (core_step st (RecordFeedback rid clock findingId acc corr)))
       = map status (reports st)"
    by (rule core_step_feedback_status)
  show "length (reports (core_run st ops)) = length (reports st)"
    using core_run_reports by blast
  show "\<forall>i<length (reports st).
         report_id (reports (core_run st ops) ! i) = report_id (reports st ! i)
       \<and> (status (reports st ! i) = APPROVED
            \<longrightarrow> status (reports (core_run st ops) ! i) = APPROVED)"
    using core_run_reports by blast
qed

theorem report_lifecycle_one_directional_witness:
  "0 < length (reports approved_state)
   \<and> status (reports approved_state ! 0) = APPROVED
   \<and> status (reports (core_run approved_state
         [RecordFeedback (report_id example_report) example_clock ''find-1700000000000-4fzyo''
            False (Some ''It is a vessel''),
          Approve (report_id example_report),
          RecordFeedback (report_id example_report) later_clock ''ft-1700000000001'' True None])
        ! 0) = APPROVED
   \<and> current_report example_state (report_id example_report) = Some example_report
   \<and> (\<exists>st' r'. handleApprove example_state example_report = Inr st'
              \<and> current_report st' (report_id example_report) = Some r'
              \<and> status r' = APPROVED)"
proof -
  have a: "0 < length (reports approved_state)" "status (reports approved_state ! 0) = APPROVED"
    by (simp_all add: approved_state_reports)
  note c = current_report_example
  from report_lifecycle_one_directional
    [of 0 "[]" "\<lparr>patient_id = [], patient_name = []\<rparr>" example_file "[]" example_analysis
        example_state "report_id example_report" example_report example_clock "[]" True None]
    c
  have ap: "\<exists>st' r'. handleApprove example_state example_report = Inr st'
              \<and> current_report st' (report_id example_report) = Some r'
              \<and> status r' = APPROVED"
    by blast
  from report_lifecycle_one_directional
    [of 0 "[]" "\<lparr>patient_id = [], patient_name = []\<rparr>" example_file "[]" example_analysis
        approved_state "report_id example_report" example_report example_clock "[]" True None
        "[RecordFeedback (report_id example_report) example_clock ''find-1700000000000-4fzyo''
            False (Some ''It is a vessel''),
          Approve (report_id example_report),
          RecordFeedback (report_id example_report) later_clock ''ft-1700000000001'' True None]"]
    a
  have "status (reports (core_run approved_state
         [RecordFeedback (report_id example_report) example_clock ''find-1700000000000-4fzyo''
            False (Some ''It is a vessel''),
          Approve (report_id example_report),
          RecordFeedback (report_id example_report) later_clock ''ft-1700000000001'' True None])
        ! 0) = APPROVED"
    by blast
  with a c ap show ?thesis by (intro conjI)
qed

end
